theory Spec2Isabelle
  imports Main
begin

section \<open>External collaborators\<close>

text \<open>
  The DevTools plugin (\<^verbatim>\<open>DevToolsPlugin\<close>, the class of the plugin source) imports its
  two constants from \<^verbatim>\<open>../devtools/constants\<close>, the serialiser \<^verbatim>\<open>stringify\<close> from
  \<^verbatim>\<open>circular-json\<close> and the deck from \<^verbatim>\<open>./pause-plugin\<close>. None of them is part of the
  sources at hand, so they are parameters of the model: every theorem below holds for
  every choice of them.

  A JavaScript value of type \<^verbatim>\<open>any\<close> is an \<open>'v option\<close>: \<open>None\<close> is \<^verbatim>\<open>undefined\<close>.
  Identifiers of the class end in an underscore (\<^verbatim>\<open>batchQueue_\<close>); the underscore is
  dropped here, since a constant's name may not end in one.
\<close>

record ('v, 'd) env =
  BATCH_MILLISECONDS :: nat
  BATCH_NOTIFICATIONS :: nat
  stringify :: "'v \<Rightarrow> string"
  newDeck :: "string \<Rightarrow> 'd"
  deckCall :: "string \<Rightarrow> 'd \<Rightarrow> 'd"

section \<open>Wire data\<close>

record GraphPayload =
  flats :: "string list"
  flatsFlushed :: nat
  rootSink :: "string option"
  sink :: "string option"
  sources :: "string list"
  sourcesFlushed :: nat

text \<open>
  A subscription reference, as the plugin sees it: what \<^verbatim>\<open>identify\<close>, \<^verbatim>\<open>inferPath\<close>,
  \<^verbatim>\<open>read\<close>, \<^verbatim>\<open>inferType\<close>, \<^verbatim>\<open>toGraph\<close> and \<^verbatim>\<open>getStackTrace\<close> return for it.
\<close>

record SubscriptionRef =
  observable_id :: string
  observable_path :: string
  observable_tag :: "string option"
  observable_type :: string
  subscriber_id :: string
  subscription_id :: string
  graph :: "GraphPayload option"
  stackTrace :: "string option"

text \<open>What the surroundings give at the moment of a call:
  \<^verbatim>\<open>identify({})\<close>, \<^verbatim>\<open>this.spy_.tick\<close> and \<^verbatim>\<open>Date.now()\<close>.\<close>

record Ambient =
  fresh_id :: string
  tick :: nat
  now :: nat

record 'v NotificationRef =
  nr_error :: "'v option"
  nr_notification :: string
  nr_prefix :: string
  nr_ref :: SubscriptionRef
  nr_value :: "'v option"

record ObservableDescriptor =
  od_id :: string
  od_path :: string
  od_tag :: "string option"
  od_type :: string

record 'v SubscriptionDescriptor =
  sd_error :: "'v option"
  sd_graph :: "GraphPayload option"
  sd_id :: string
  sd_stackTrace :: "string option"

record ValuePayload =
  json :: string

record 'v NotificationPayload =
  np_id :: string
  np_observable :: ObservableDescriptor
  np_subscriber :: string
  np_subscription :: "'v SubscriptionDescriptor"
  np_tick :: nat
  np_timestamp :: nat
  np_type :: string
  np_value :: "ValuePayload option"

record 's DeckStatsPayload =
  ds_id :: string
  ds_stats :: 's

record Request =
  rq_requestType :: string
  rq_postId :: string
  rq_spyId :: string
  rq_pluginId :: string
  rq_command :: string

record 'sn Response =
  rs_request :: Request
  rs_error :: "string option"
  rs_pluginId :: "string option"
  rs_snapshot :: "'sn option"

datatype ('v, 's) Broadcast =
    BroadcastNotification "'v NotificationPayload"
  | BroadcastDeckStats "'s DeckStatsPayload"
  | BroadcastSnapshotHint

datatype ('v, 's, 'sn) Message =
    Batch "('v, 's, 'sn) Message list"
  | Broadcast "('v, 's) Broadcast"
  | Response "'sn Response"

text \<open>\<^verbatim>\<open>message.broadcastType\<close>; \<open>None\<close> (\<^verbatim>\<open>undefined\<close>) on a message that is no broadcast.\<close>

fun broadcastType :: "('v, 's, 'sn) Message \<Rightarrow> string option" where
  "broadcastType (Broadcast (BroadcastNotification n)) = Some ''notification''"
| "broadcastType (Broadcast (BroadcastDeckStats st)) = Some ''deck-stats''"
| "broadcastType (Broadcast BroadcastSnapshotHint) = Some ''snapshot-hint''"
| "broadcastType (Batch ms) = None"
| "broadcastType (Response r) = None"

text \<open>\<^verbatim>\<open>message.stats.id\<close>, read only on a deck-stats broadcast.\<close>

fun stats_id :: "('v, 's, 'sn) Message \<Rightarrow> string option" where
  "stats_id (Broadcast (BroadcastDeckStats st)) = Some (ds_id st)"
| "stats_id m = None"

section \<open>The plugin's state\<close>

datatype 'd Plugin = LogPlugin string | PausePlugin string 'd

text \<open>
  A \<^verbatim>\<open>PluginRecord\<close>. Its \<^verbatim>\<open>teardown\<close> closure is the one \<^verbatim>\<open>spy.plug\<close> returned; it
  is named by the number of the \<^verbatim>\<open>plug\<close> call that made it, and calling it is logged
  in the spy.
\<close>

record 'd PluginRecord =
  pr_plugin :: "'d Plugin"
  pr_pluginId :: string
  pr_spyId :: string
  pr_teardown :: nat

text \<open>
  The spy, as far as the plugin uses it: \<open>sp_snapshot\<close> is what
  \<^verbatim>\<open>toSnapshot(snapshotPlugin.snapshotAll())\<close> yields, \<open>None\<close> when \<^verbatim>\<open>find(SnapshotPlugin)\<close>
  finds nothing; \<open>sp_plugs\<close> counts the calls of \<^verbatim>\<open>plug\<close>; \<open>sp_teardownCalls\<close> lists the
  teardown closures called so far.
\<close>

record 'sn Spy =
  sp_snapshot :: "'sn option"
  sp_plugs :: nat
  sp_teardownCalls :: "nat list"

text \<open>
  The fields of the class, then the world around it: the deck-stats streams subscribed
  to (by spy id), the pending timeouts (identifier and delay), the messages posted on
  the connection and the messages handed to \<^verbatim>\<open>batchMessage_\<close>, both in order.
  \<open>connection\<close> and \<open>subscription\<close> say whether \<^verbatim>\<open>connection_\<close> is defined and whether
  \<^verbatim>\<open>subscription_\<close> is still subscribed.
\<close>

record ('v, 's, 'sn, 'd) DevToolsPlugin =
  batchQueue :: "('v, 's, 'sn) Message list"
  batchTimeoutId :: "nat option"
  connection :: bool
  plugins :: "string \<rightharpoonup> 'd PluginRecord"
  snapshotHinted :: bool
  spy :: "'sn Spy"
  subscription :: bool
  statsSubscriptions :: "string list"
  timers :: "(nat \<times> nat) list"
  nextTimeoutId :: nat
  posted :: "('v, 's, 'sn) Message list"
  enqueued :: "('v, 's, 'sn) Message list"

text \<open>The constructor; \<open>extension\<close> says whether \<^verbatim>\<open>window[EXTENSION_KEY]\<close> is there.\<close>

definition constructor :: "bool \<Rightarrow> 'sn Spy \<Rightarrow> ('v, 's, 'sn, 'd) DevToolsPlugin" where
  "constructor extension sp =
     \<lparr>batchQueue = [], batchTimeoutId = None, connection = extension,
      plugins = Map.empty, snapshotHinted = False, spy = sp, subscription = extension,
      statsSubscriptions = [], timers = [], nextTimeoutId = 0, posted = [], enqueued = []\<rparr>"

section \<open>Batching\<close>

definition clearTimeout :: "nat \<Rightarrow> (nat \<times> nat) list \<Rightarrow> (nat \<times> nat) list" where
  "clearTimeout t ts = filter (\<lambda>p. fst p \<noteq> t) ts"

definition batchMessage ::
  "('v, 'd) env \<Rightarrow> ('v, 's, 'sn) Message \<Rightarrow> ('v, 's, 'sn, 'd) DevToolsPlugin
     \<Rightarrow> ('v, 's, 'sn, 'd) DevToolsPlugin" where
  "batchMessage e message s =
     (if batchTimeoutId s \<noteq> None
      then s\<lparr>batchQueue := batchQueue s @ [message], enqueued := enqueued s @ [message]\<rparr>
      else s\<lparr>batchQueue := [message],
             batchTimeoutId := Some (nextTimeoutId s),
             timers := timers s @ [(nextTimeoutId s, BATCH_MILLISECONDS e)],
             nextTimeoutId := Suc (nextTimeoutId s),
             enqueued := enqueued s @ [message]\<rparr>)"

text \<open>The callback given to \<^verbatim>\<open>setTimeout\<close> in \<^verbatim>\<open>batchMessage_\<close>.\<close>

definition batchTimeout ::
  "('v, 's, 'sn, 'd) DevToolsPlugin \<Rightarrow> ('v, 's, 'sn, 'd) DevToolsPlugin" where
  "batchTimeout s =
     (if connection s
      then s\<lparr>posted := posted s @ [Batch (batchQueue s)],
             batchTimeoutId := None,
             batchQueue := []\<rparr>
      else s)"

text \<open>
  \<^verbatim>\<open>{ id, ...stats }\<close>. The type of a deck's statistics is declared in \<^verbatim>\<open>./pause-plugin\<close>;
  it is taken to have no field \<^verbatim>\<open>id\<close> of its own, so the payload's id is the one given.
\<close>

definition toStats :: "string \<Rightarrow> 's \<Rightarrow> 's DeckStatsPayload" where
  "toStats i stats = \<lparr>ds_id = i, ds_stats = stats\<rparr>"

definition batchDeckStats ::
  "('v, 'd) env \<Rightarrow> 's DeckStatsPayload \<Rightarrow> ('v, 's, 'sn, 'd) DevToolsPlugin
     \<Rightarrow> ('v, 's, 'sn, 'd) DevToolsPlugin" where
  "batchDeckStats e stats s =
     batchMessage e (Broadcast (BroadcastDeckStats stats))
       (s\<lparr>batchQueue :=
            filter (\<lambda>message. broadcastType message \<noteq> Some ''deck-stats''
                               \<or> stats_id message \<noteq> Some (ds_id stats))
                   (batchQueue s)\<rparr>)"

definition toValue :: "('v, 'd) env \<Rightarrow> 'v \<Rightarrow> ValuePayload" where
  "toValue e v = \<lparr>json = stringify e v\<rparr>"

definition toNotification ::
  "('v, 'd) env \<Rightarrow> 'v NotificationRef \<Rightarrow> Ambient \<Rightarrow> 'v NotificationPayload" where
  "toNotification e notificationRef a =
     \<lparr>np_id = fresh_id a,
      np_observable =
        \<lparr>od_id = observable_id (nr_ref notificationRef),
         od_path = observable_path (nr_ref notificationRef),
         od_tag = observable_tag (nr_ref notificationRef),
         od_type = observable_type (nr_ref notificationRef)\<rparr>,
      np_subscriber = subscriber_id (nr_ref notificationRef),
      np_subscription =
        \<lparr>sd_error = nr_error notificationRef,
         sd_graph = graph (nr_ref notificationRef),
         sd_id = subscription_id (nr_ref notificationRef),
         sd_stackTrace = stackTrace (nr_ref notificationRef)\<rparr>,
      np_tick = tick a,
      np_timestamp = now a,
      np_type = nr_prefix notificationRef @ ''-'' @ nr_notification notificationRef,
      np_value =
        (case nr_value notificationRef of None \<Rightarrow> None | Some v \<Rightarrow> Some (toValue e v))\<rparr>"

text \<open>The \<^verbatim>\<open>reduce\<close> of \<^verbatim>\<open>batchNotification_\<close>.\<close>

definition notificationCount :: "('v, 's, 'sn) Message list \<Rightarrow> nat" where
  "notificationCount q =
     foldl (\<lambda>c message. if broadcastType message = Some ''notification'' then c + 1 else c) 0 q"

definition batchNotification ::
  "('v, 'd) env \<Rightarrow> 'v NotificationRef \<Rightarrow> Ambient \<Rightarrow> ('v, 's, 'sn, 'd) DevToolsPlugin
     \<Rightarrow> ('v, 's, 'sn, 'd) DevToolsPlugin" where
  "batchNotification e notificationRef a s =
     (if connection s then
        if snapshotHinted s then s
        else if notificationCount (batchQueue s) > BATCH_NOTIFICATIONS e
        then (batchMessage e (Broadcast BroadcastSnapshotHint)
                (s\<lparr>batchQueue :=
                     filter (\<lambda>message. broadcastType message \<noteq> Some ''notification'')
                            (batchQueue s)\<rparr>))
             \<lparr>snapshotHinted := True\<rparr>
        else batchMessage e
               (Broadcast (BroadcastNotification (toNotification e notificationRef a))) s
      else s)"

section \<open>The lifecycle hooks\<close>

datatype 'v Hook =
    AfterSubscribe SubscriptionRef
  | AfterUnsubscribe SubscriptionRef
  | BeforeComplete SubscriptionRef
  | BeforeError SubscriptionRef "'v option"
  | BeforeNext SubscriptionRef "'v option"
  | BeforeSubscribe SubscriptionRef
  | BeforeUnsubscribe SubscriptionRef

text \<open>The object each hook method hands to \<^verbatim>\<open>batchNotification_\<close>.\<close>

fun notificationRef :: "'v Hook \<Rightarrow> 'v NotificationRef" where
  "notificationRef (AfterSubscribe r) =
     \<lparr>nr_error = None, nr_notification = ''subscribe'', nr_prefix = ''after'',
      nr_ref = r, nr_value = None\<rparr>"
| "notificationRef (AfterUnsubscribe r) =
     \<lparr>nr_error = None, nr_notification = ''unsubscribe'', nr_prefix = ''after'',
      nr_ref = r, nr_value = None\<rparr>"
| "notificationRef (BeforeComplete r) =
     \<lparr>nr_error = None, nr_notification = ''complete'', nr_prefix = ''before'',
      nr_ref = r, nr_value = None\<rparr>"
| "notificationRef (BeforeError r err) =
     \<lparr>nr_error = err, nr_notification = ''error'', nr_prefix = ''before'',
      nr_ref = r, nr_value = None\<rparr>"
| "notificationRef (BeforeNext r v) =
     \<lparr>nr_error = None, nr_notification = ''next'', nr_prefix = ''before'',
      nr_ref = r, nr_value = v\<rparr>"
| "notificationRef (BeforeSubscribe r) =
     \<lparr>nr_error = None, nr_notification = ''subscribe'', nr_prefix = ''before'',
      nr_ref = r, nr_value = None\<rparr>"
| "notificationRef (BeforeUnsubscribe r) =
     \<lparr>nr_error = None, nr_notification = ''unsubscribe'', nr_prefix = ''before'',
      nr_ref = r, nr_value = None\<rparr>"

section \<open>Requests\<close>

definition recordPlugin ::
  "string \<Rightarrow> string \<Rightarrow> 'd Plugin \<Rightarrow> ('v, 's, 'sn, 'd) DevToolsPlugin
     \<Rightarrow> ('v, 's, 'sn, 'd) DevToolsPlugin" where
  "recordPlugin spyId pluginId plugin s =
     s\<lparr>spy := (spy s)\<lparr>sp_plugs := Suc (sp_plugs (spy s))\<rparr>,
       plugins := (plugins s)(pluginId \<mapsto>
         \<lparr>pr_plugin = plugin, pr_pluginId = pluginId, pr_spyId = spyId,
          pr_teardown = sp_plugs (spy s)\<rparr>)\<rparr>"

definition teardownPlugin ::
  "string \<Rightarrow> ('v, 's, 'sn, 'd) DevToolsPlugin \<Rightarrow> ('v, 's, 'sn, 'd) DevToolsPlugin" where
  "teardownPlugin pluginId s =
     (case plugins s pluginId of
        None \<Rightarrow> s
      | Some record \<Rightarrow>
          s\<lparr>spy := (spy s)\<lparr>sp_teardownCalls := sp_teardownCalls (spy s) @ [pr_teardown record]\<rparr>,
            plugins := (plugins s)(pluginId := None)\<rparr>)"

text \<open>
  \<^verbatim>\<open>deck[command]()\<close> on a plugin that has no deck (a log plugin) is a call on
  \<^verbatim>\<open>undefined\<close>: a \<^verbatim>\<open>TypeError\<close> thrown inside the \<^verbatim>\<open>map\<close> of the response stream.
\<close>

datatype failure = TypeError

definition pauseCommand ::
  "('v, 'd) env \<Rightarrow> Request \<Rightarrow> 'sn Response \<Rightarrow> ('v, 's, 'sn, 'd) DevToolsPlugin
     \<Rightarrow> failure + ('sn Response \<times> ('v, 's, 'sn, 'd) DevToolsPlugin)" where
  "pauseCommand e request response s =
     (case plugins s (rq_pluginId request) of
        None \<Rightarrow> Inr (response, s)
      | Some pluginRecord \<Rightarrow>
          if rq_command request \<in> {''clear'', ''pause'', ''resume'', ''skip'', ''step''}
          then (case pr_plugin pluginRecord of
                  LogPlugin spyId \<Rightarrow> Inl TypeError
                | PausePlugin spyId d \<Rightarrow>
                    Inr (response,
                         s\<lparr>plugins := (plugins s)(rq_pluginId request \<mapsto>
                              pluginRecord\<lparr>pr_plugin :=
                                PausePlugin spyId (deckCall e (rq_command request) d)\<rparr>)\<rparr>))
          else if rq_command request = ''inspect''
          then Inr (response\<lparr>rs_error := Some ''Not implemented.''\<rparr>, s)
          else Inr (response\<lparr>rs_error := Some ''Unexpected command.''\<rparr>, s))"

text \<open>The function mapped over the requests: the response and the new state.\<close>

definition respond ::
  "('v, 'd) env \<Rightarrow> Request \<Rightarrow> ('v, 's, 'sn, 'd) DevToolsPlugin
     \<Rightarrow> failure + ('sn Response \<times> ('v, 's, 'sn, 'd) DevToolsPlugin)" where
  "respond e request s =
     (let response = \<lparr>rs_request = request, rs_error = None, rs_pluginId = None,
                      rs_snapshot = None\<rparr>
      in if rq_requestType request = ''log''
         then Inr (response\<lparr>rs_pluginId := Some (rq_postId request)\<rparr>,
                   recordPlugin (rq_spyId request) (rq_postId request)
                     (LogPlugin (rq_spyId request)) s)
         else if rq_requestType request = ''log-teardown''
         then Inr (response, teardownPlugin (rq_pluginId request) s)
         else if rq_requestType request = ''pause''
         then Inr (response\<lparr>rs_pluginId := Some (rq_postId request)\<rparr>,
                   (recordPlugin (rq_spyId request) (rq_postId request)
                      (PausePlugin (rq_spyId request) (newDeck e (rq_spyId request))) s)
                   \<lparr>statsSubscriptions := statsSubscriptions s @ [rq_spyId request]\<rparr>)
         else if rq_requestType request = ''pause-command''
         then pauseCommand e request response s
         else if rq_requestType request = ''pause-teardown''
         then Inr (response, teardownPlugin (rq_pluginId request) s)
         else if rq_requestType request = ''snapshot''
         then (let s' = s\<lparr>snapshotHinted := False\<rparr>
               in case sp_snapshot (spy s') of
                    Some snapshot \<Rightarrow> Inr (response\<lparr>rs_snapshot := Some snapshot\<rparr>, s')
                  | None \<Rightarrow>
                      Inr (response\<lparr>rs_error := Some ''Cannot find snapshot plugin.''\<rparr>, s'))
         else Inr (response\<lparr>rs_error := Some ''Unexpected request.''\<rparr>, s))"

text \<open>
  A request post arriving on the connection. The response goes out through
  \<^verbatim>\<open>connection_.post\<close>; an exception in the mapped function ends the subscription.
\<close>

definition post ::
  "('v, 'd) env \<Rightarrow> Request \<Rightarrow> ('v, 's, 'sn, 'd) DevToolsPlugin
     \<Rightarrow> ('v, 's, 'sn, 'd) DevToolsPlugin" where
  "post e request s =
     (if subscription s
      then (case respond e request s of
              Inl err \<Rightarrow> s\<lparr>subscription := False\<rparr>
            | Inr (response, s') \<Rightarrow>
                if connection s' then s'\<lparr>posted := posted s' @ [Response response]\<rparr> else s')
      else s)"

definition teardown ::
  "('v, 's, 'sn, 'd) DevToolsPlugin \<Rightarrow> ('v, 's, 'sn, 'd) DevToolsPlugin" where
  "teardown s =
     (let s1 = (case batchTimeoutId s of
                  Some t \<Rightarrow> s\<lparr>timers := clearTimeout t (timers s), batchTimeoutId := None\<rparr>
                | None \<Rightarrow> s)
      in if connection s1 then s1\<lparr>connection := False, subscription := False\<rparr> else s1)"

section \<open>Runs\<close>

text \<open>
  Everything runs on one event loop, so an execution is a sequence of events: a hook
  call, a request post, a deck emitting statistics, a timeout falling due, the teardown
  of the plugin. A timeout fires only while it is pending; a deck's statistics reach
  the plugin only once a pause request has subscribed to them. Statistics that a deck
  emits while it runs a command are the \<open>DeckStats\<close> events after the request: the
  command touches the deck only, the statistics the queue and the timeout only.
\<close>

datatype ('v, 's) event =
    Lifecycle "'v Hook" Ambient
  | Post Request
  | DeckStats string 's
  | Timeout nat
  | Teardown

fun step ::
  "('v, 'd) env \<Rightarrow> ('v, 's) event \<Rightarrow> ('v, 's, 'sn, 'd) DevToolsPlugin
     \<Rightarrow> ('v, 's, 'sn, 'd) DevToolsPlugin" where
  "step e (Lifecycle h a) s = batchNotification e (notificationRef h) a s"
| "step e (Post request) s = post e request s"
| "step e (DeckStats spyId stats) s =
     (if spyId \<in> set (statsSubscriptions s) then batchDeckStats e (toStats spyId stats) s
      else s)"
| "step e (Timeout t) s =
     (if t \<in> set (map fst (timers s))
      then batchTimeout (s\<lparr>timers := clearTimeout t (timers s)\<rparr>)
      else s)"
| "step e Teardown s = teardown s"

definition run ::
  "('v, 'd) env \<Rightarrow> ('v, 's) event list \<Rightarrow> ('v, 's, 'sn, 'd) DevToolsPlugin
     \<Rightarrow> ('v, 's, 'sn, 'd) DevToolsPlugin" where
  "run e es s = foldl (\<lambda>s' ev. step e ev s') s es"

section \<open>Notions used in the statements\<close>

text \<open>A sequence of hook calls as events, and the notification broadcasts built for them.\<close>

definition lifecycles :: "('v Hook \<times> Ambient) list \<Rightarrow> ('v, 's) event list" where
  "lifecycles hs = map (\<lambda>p. Lifecycle (fst p) (snd p)) hs"

definition notifications ::
  "('v, 'd) env \<Rightarrow> ('v Hook \<times> Ambient) list \<Rightarrow> ('v, 's, 'sn) Message list" where
  "notifications e hs =
     map (\<lambda>p. Broadcast (BroadcastNotification
                  (toNotification e (notificationRef (fst p)) (snd p)))) hs"

text \<open>The number of snapshot-hint broadcasts in a list of messages.\<close>

definition hints :: "('v, 's, 'sn) Message list \<Rightarrow> nat" where
  "hints ms = length (filter (\<lambda>m. broadcastType m = Some ''snapshot-hint'') ms)"

text \<open>Every event of the sequence finds the flag \<^verbatim>\<open>snapshotHinted_\<close> set.\<close>

fun hintedBefore ::
  "('v, 'd) env \<Rightarrow> ('v, 's) event list \<Rightarrow> ('v, 's, 'sn, 'd) DevToolsPlugin \<Rightarrow> bool" where
  "hintedBefore e [] s = True"
| "hintedBefore e (ev # es) s = (snapshotHinted s \<and> hintedBefore e es (step e ev s))"

text \<open>With a connection, the queue is empty whenever no batch window is open.\<close>

definition window_inv :: "('v, 's, 'sn, 'd) DevToolsPlugin \<Rightarrow> bool" where
  "window_inv s = (connection s \<and> batchTimeoutId s = None \<longrightarrow> batchQueue s = [])"

text \<open>
  No teardown closure was called twice, every closure called or recorded comes from an
  earlier \<^verbatim>\<open>plug\<close>, no recorded closure was called yet, and no two records share one.
\<close>

definition plugin_inv :: "('v, 's, 'sn, 'd) DevToolsPlugin \<Rightarrow> bool" where
  "plugin_inv s =
     (distinct (sp_teardownCalls (spy s))
      \<and> (\<forall>h \<in> set (sp_teardownCalls (spy s)). h < sp_plugs (spy s))
      \<and> (\<forall>k r. plugins s k = Some r \<longrightarrow>
            pr_teardown r < sp_plugs (spy s) \<and> pr_teardown r \<notin> set (sp_teardownCalls (spy s)))
      \<and> (\<forall>k k' r r'. plugins s k = Some r \<longrightarrow> plugins s k' = Some r' \<longrightarrow>
            pr_teardown r = pr_teardown r' \<longrightarrow> k = k'))"

section \<open>Sample inputs\<close>

text \<open>
  Concrete instances, used where a statement is evaluated: values are numbers, a deck is
  its paused flag, the batch holds up to two notifications before the overload policy
  may fire.
\<close>

definition env0 :: "(nat, bool) env" where
  "env0 = \<lparr>BATCH_MILLISECONDS = 100, BATCH_NOTIFICATIONS = 2,
            stringify = (\<lambda>n. if n = 0 then ''0'' else ''n''),
            newDeck = (\<lambda>spyId. False),
            deckCall = (\<lambda>c d. if c = ''pause'' then True
                              else if c = ''resume'' then False else d)\<rparr>"

definition ref0 :: SubscriptionRef where
  "ref0 = \<lparr>observable_id = ''1'', observable_path = ''/observable'', observable_tag = None,
            observable_type = ''observable'', subscriber_id = ''2'', subscription_id = ''3'',
            graph = None, stackTrace = None\<rparr>"

definition amb0 :: Ambient where
  "amb0 = \<lparr>fresh_id = ''4'', tick = 1, now = 1000\<rparr>"

definition spy0 :: "nat Spy" where
  "spy0 = \<lparr>sp_snapshot = None, sp_plugs = 0, sp_teardownCalls = []\<rparr>"

definition spy1 :: "nat Spy" where
  "spy1 = \<lparr>sp_snapshot = Some 0, sp_plugs = 0, sp_teardownCalls = []\<rparr>"

definition request0 :: "string \<Rightarrow> string \<Rightarrow> string \<Rightarrow> Request" where
  "request0 ty pluginId command =
     \<lparr>rq_requestType = ty, rq_postId = ''p1'', rq_spyId = ''spy'', rq_pluginId = pluginId,
      rq_command = command\<rparr>"

definition start0 :: "(nat, nat, nat, bool) DevToolsPlugin" where
  "start0 = constructor True spy0"

definition start1 :: "(nat, nat, nat, bool) DevToolsPlugin" where
  "start1 = constructor True spy1"

definition next0 :: "(nat, nat) event" where
  "next0 = Lifecycle (BeforeNext ref0 (Some 0)) amb0"

definition note0 :: "(nat, nat, nat) Message" where
  "note0 = Broadcast (BroadcastNotification
             (toNotification env0 (notificationRef (BeforeNext ref0 (Some 0))) amb0))"

text \<open>Three notifications in an open window; then a fourth hook call, which sets the flag.\<close>

definition busy0 :: "(nat, nat, nat, bool) DevToolsPlugin" where
  "busy0 = run env0 [next0, next0, next0] start0"

definition hinted0 :: "(nat, nat, nat, bool) DevToolsPlugin" where
  "hinted0 = step env0 next0 busy0"

text \<open>A pause plugin under the id \<open>p1\<close>, its deck statistics subscribed.\<close>

definition paused0 :: "(nat, nat, nat, bool) DevToolsPlugin" where
  "paused0 = step env0 (Post (request0 ''pause'' [] [])) start0"

text \<open>The plugin torn down, then statistics of the deck arriving.\<close>

definition stale0 :: "(nat, nat, nat, bool) DevToolsPlugin" where
  "stale0 = run env0 [Teardown, DeckStats ''spy'' 5] paused0"

text \<open>Statistics of the deck and three notifications in one window.\<close>

definition mixed0 :: "(nat, nat, nat, bool) DevToolsPlugin" where
  "mixed0 = run env0 [DeckStats ''spy'' 5, next0, next0, next0] paused0"

section \<open>Lemmas\<close>

lemma foldl_batchMessage:
  "batchTimeoutId s \<noteq> None \<Longrightarrow>
   batchQueue (foldl (\<lambda>s' m. batchMessage e m s') s ms) = batchQueue s @ ms
   \<and> batchTimeoutId (foldl (\<lambda>s' m. batchMessage e m s') s ms) = batchTimeoutId s
   \<and> connection (foldl (\<lambda>s' m. batchMessage e m s') s ms) = connection s
   \<and> posted (foldl (\<lambda>s' m. batchMessage e m s') s ms) = posted s
   \<and> timers (foldl (\<lambda>s' m. batchMessage e m s') s ms) = timers s"
  by (induction ms arbitrary: s) (auto simp: batchMessage_def)

lemma window_flushed: "batchTimeoutId s = None \<and> connection s \<longrightarrow>
      (let s' = step e (Timeout (nextTimeoutId s)) (foldl (\<lambda>s' m'. batchMessage e m' s') (batchMessage e m s) ms)
       in posted s' = posted s @ [Batch (m # ms)] \<and> batchTimeoutId s' = None \<and> batchQueue s' = [])"
proof (intro impI)
  assume a: "batchTimeoutId s = None \<and> connection s"
  define s1 where "s1 = batchMessage e m s"
  define s2 where "s2 = foldl (\<lambda>s' m'. batchMessage e m' s') s1 ms"
  have b: "batchTimeoutId s1 \<noteq> None" using a by (simp add: s1_def batchMessage_def)
  have c: "batchQueue s1 = [m]" "connection s1" "posted s1 = posted s"
      "timers s1 = timers s @ [(nextTimeoutId s, BATCH_MILLISECONDS e)]"
    using a by (simp_all add: s1_def batchMessage_def)
  have d: "batchQueue s2 = m # ms" "connection s2" "posted s2 = posted s"
      "timers s2 = timers s @ [(nextTimeoutId s, BATCH_MILLISECONDS e)]"
    using foldl_batchMessage[OF b, of e ms] c by (simp_all add: s2_def)
  have f: "step e (Timeout (nextTimeoutId s)) s2
             = batchTimeout (s2\<lparr>timers := clearTimeout (nextTimeoutId s) (timers s2)\<rparr>)"
    by (simp add: d)
  have "posted (step e (Timeout (nextTimeoutId s)) s2) = posted s @ [Batch (m # ms)]
        \<and> batchTimeoutId (step e (Timeout (nextTimeoutId s)) s2) = None
        \<and> batchQueue (step e (Timeout (nextTimeoutId s)) s2) = []"
    unfolding f by (simp add: batchTimeout_def d)
  then show "let s' = step e (Timeout (nextTimeoutId s)) (foldl (\<lambda>s' m'. batchMessage e m' s') (batchMessage e m s) ms)
       in posted s' = posted s @ [Batch (m # ms)] \<and> batchTimeoutId s' = None \<and> batchQueue s' = []"
    unfolding Let_def s2_def s1_def .
qed

lemma batchMessage_open: "batchTimeoutId s \<noteq> None \<longrightarrow>
      batchQueue (batchMessage e m s) = batchQueue s @ [m]
      \<and> batchTimeoutId (batchMessage e m s) = batchTimeoutId s
      \<and> timers (batchMessage e m s) = timers s"
    by (simp add: batchMessage_def)

lemma batchMessage_new: "batchTimeoutId s = None \<longrightarrow>
      batchQueue (batchMessage e m s) = [m]
      \<and> batchTimeoutId (batchMessage e m s) = Some (nextTimeoutId s)
      \<and> timers (batchMessage e m s) = timers s @ [(nextTimeoutId s, BATCH_MILLISECONDS e)]"
    by (simp add: batchMessage_def)

lemma timeout_connected: "t \<in> set (map fst (timers s)) \<and> connection s \<longrightarrow>
      posted (step e (Timeout t) s) = posted s @ [Batch (batchQueue s)]
      \<and> batchTimeoutId (step e (Timeout t) s) = None
      \<and> batchQueue (step e (Timeout t) s) = []"
    by (simp add: batchTimeout_def)

lemma timeout_disconnected: "t \<in> set (map fst (timers s)) \<and> \<not> connection s \<longrightarrow>
      posted (step e (Timeout t) s) = posted s
      \<and> batchTimeoutId (step e (Timeout t) s) = batchTimeoutId s
      \<and> batchQueue (step e (Timeout t) s) = batchQueue s"
    by (simp add: batchTimeout_def)

lemma payload_type:
  "\<exists>p n. p \<in> {''before'', ''after''}
        \<and> n \<in> {''subscribe'', ''unsubscribe'', ''next'', ''error'', ''complete''}
        \<and> np_type (toNotification e (notificationRef h) a) = p @ ''-'' @ n"
proof (cases h)
  case (AfterSubscribe r)
  then show ?thesis
    by (intro exI[of _ "''after''"] exI[of _ "''subscribe''"]) (simp add: toNotification_def)
next
  case (AfterUnsubscribe r)
  then show ?thesis
    by (intro exI[of _ "''after''"] exI[of _ "''unsubscribe''"]) (simp add: toNotification_def)
next
  case (BeforeComplete r)
  then show ?thesis
    by (intro exI[of _ "''before''"] exI[of _ "''complete''"]) (simp add: toNotification_def)
next
  case (BeforeError r err)
  then show ?thesis
    by (intro exI[of _ "''before''"] exI[of _ "''error''"]) (simp add: toNotification_def)
next
  case (BeforeNext r v)
  then show ?thesis
    by (intro exI[of _ "''before''"] exI[of _ "''next''"]) (simp add: toNotification_def)
next
  case (BeforeSubscribe r)
  then show ?thesis
    by (intro exI[of _ "''before''"] exI[of _ "''subscribe''"]) (simp add: toNotification_def)
next
  case (BeforeUnsubscribe r)
  then show ?thesis
    by (intro exI[of _ "''before''"] exI[of _ "''unsubscribe''"]) (simp add: toNotification_def)
qed

lemma payload_value:
  "np_value (toNotification e (notificationRef h) a)
       = (case h of BeforeNext r (Some v) \<Rightarrow> Some \<lparr>json = stringify e v\<rparr> | _ \<Rightarrow> None)"
  by (cases h) (simp_all add: toNotification_def toValue_def split: option.splits)

lemma payload_value_present:
  "(np_value (toNotification e (notificationRef h) a) \<noteq> None)
        = (\<exists>r v. h = BeforeNext r (Some v))"
  by (cases h) (simp_all add: toNotification_def toValue_def split: option.splits)

lemma payload_error:
  "sd_error (np_subscription (toNotification e (notificationRef h) a))
       = (case h of BeforeError r err \<Rightarrow> err | _ \<Rightarrow> None)"
  by (cases h) (simp_all add: toNotification_def)

lemma payload_type_ref:
  "np_type (toNotification e nr a) = nr_prefix nr @ ''-'' @ nr_notification nr"
  by (simp add: toNotification_def)

lemma payload_type_hook:
  "np_type (toNotification e (notificationRef h) a)
     = (case h of
          AfterSubscribe r \<Rightarrow> ''after-subscribe''
        | AfterUnsubscribe r \<Rightarrow> ''after-unsubscribe''
        | BeforeComplete r \<Rightarrow> ''before-complete''
        | BeforeError r err \<Rightarrow> ''before-error''
        | BeforeNext r v \<Rightarrow> ''before-next''
        | BeforeSubscribe r \<Rightarrow> ''before-subscribe''
        | BeforeUnsubscribe r \<Rightarrow> ''before-unsubscribe'')"
  by (cases h) (simp_all add: toNotification_def)

lemma notificationRef_hook:
  "(nr_prefix (notificationRef h), nr_notification (notificationRef h))
     = (case h of
          AfterSubscribe r \<Rightarrow> (''after'', ''subscribe'')
        | AfterUnsubscribe r \<Rightarrow> (''after'', ''unsubscribe'')
        | BeforeComplete r \<Rightarrow> (''before'', ''complete'')
        | BeforeError r err \<Rightarrow> (''before'', ''error'')
        | BeforeNext r v \<Rightarrow> (''before'', ''next'')
        | BeforeSubscribe r \<Rightarrow> (''before'', ''subscribe'')
        | BeforeUnsubscribe r \<Rightarrow> (''before'', ''unsubscribe''))"
  by (cases h) simp_all

lemma batchDeckStats_queue:
  "batchQueue (batchDeckStats e st s)
     = (if batchTimeoutId s \<noteq> None
        then filter (\<lambda>m. broadcastType m \<noteq> Some ''deck-stats'' \<or> stats_id m \<noteq> Some (ds_id st))
               (batchQueue s)
        else [])
       @ [Broadcast (BroadcastDeckStats st)]"
  by (simp add: batchDeckStats_def batchMessage_def)

lemma batchDeckStats_latest:
  "filter (\<lambda>m. broadcastType m = Some ''deck-stats'' \<and> stats_id m = Some (ds_id st))
     (batchQueue (batchDeckStats e st s)) = [Broadcast (BroadcastDeckStats st)]"
proof -
  have "filter (\<lambda>m. broadcastType m = Some ''deck-stats'' \<and> stats_id m = Some (ds_id st))
          (filter (\<lambda>m. broadcastType m \<noteq> Some ''deck-stats'' \<or> stats_id m \<noteq> Some (ds_id st)) q) = []"
    for q :: "('a, 'b, 'c) Message list"
    by (induction q) auto
  then show ?thesis by (simp add: batchDeckStats_queue)
qed

lemma batchDeckStats_frame:
  "batchTimeoutId (batchDeckStats e st s) \<noteq> None
   \<and> connection (batchDeckStats e st s) = connection s
   \<and> posted (batchDeckStats e st s) = posted s
   \<and> snapshotHinted (batchDeckStats e st s) = snapshotHinted s"
  by (simp add: batchDeckStats_def batchMessage_def)

lemma respond_frame:
  "respond e rq s = Inr (resp, s') \<Longrightarrow>
     connection s' = connection s \<and> posted s' = posted s \<and> enqueued s' = enqueued s
     \<and> batchQueue s' = batchQueue s \<and> batchTimeoutId s' = batchTimeoutId s
     \<and> timers s' = timers s \<and> subscription s' = subscription s"
  by (auto simp: respond_def pauseCommand_def recordPlugin_def teardownPlugin_def Let_def
           split: if_splits option.splits Plugin.splits)

lemma respond_hinted:
  "respond e rq s = Inr (resp, s') \<Longrightarrow> snapshotHinted s \<Longrightarrow> \<not> snapshotHinted s'
     \<Longrightarrow> rq_requestType rq = ''snapshot''"
  by (auto simp: respond_def pauseCommand_def recordPlugin_def teardownPlugin_def Let_def
           split: if_splits option.splits Plugin.splits)

lemma post_cases:
  "post e rq s = s \<or> post e rq s = s\<lparr>subscription := False\<rparr>
   \<or> (\<exists>resp s'. respond e rq s = Inr (resp, s') \<and> subscription s
        \<and> (post e rq s = s' \<or> post e rq s = s'\<lparr>posted := posted s' @ [Response resp]\<rparr>))"
  by (auto simp: post_def split: sum.splits)

lemma hint_cleared_by:
  assumes "snapshotHinted s" and "\<not> snapshotHinted (step e ev s)"
  shows "\<exists>rq. ev = Post rq \<and> rq_requestType rq = ''snapshot'' \<and> subscription s"
proof (cases ev)
  case (Lifecycle h a)
  with assms show ?thesis by (simp add: batchNotification_def split: if_splits)
next
  case (Post rq)
  from assms Post have n: "\<not> snapshotHinted (post e rq s)" by simp
  from post_cases[of e rq s] n assms(1) obtain resp s' where
    r: "respond e rq s = Inr (resp, s')" "subscription s" "\<not> snapshotHinted s'"
    by auto
  from respond_hinted[OF r(1) assms(1) r(3)] r(2) Post show ?thesis by simp
next
  case (DeckStats spyId stats)
  with assms show ?thesis by (simp add: batchDeckStats_frame split: if_splits)
next
  case (Timeout t)
  with assms show ?thesis by (simp add: batchTimeout_def split: if_splits)
next
  case Teardown
  with assms show ?thesis by (simp add: teardown_def Let_def split: option.splits if_splits)
qed

lemma step_disconnected:
  assumes "\<not> connection s"
  shows "\<not> connection (step e ev s) \<and> posted (step e ev s) = posted s"
proof (cases ev)
  case (Lifecycle h a)
  with assms show ?thesis by (simp add: batchNotification_def)
next
  case (Post rq)
  from post_cases[of e rq s] show ?thesis
  proof (elim disjE exE conjE)
    assume "post e rq s = s" with assms Post show ?thesis by simp
  next
    assume "post e rq s = s\<lparr>subscription := False\<rparr>" with assms Post show ?thesis by simp
  next
    fix resp s' assume r: "respond e rq s = Inr (resp, s')" and p: "post e rq s = s'"
    from respond_frame[OF r] assms p Post show ?thesis by simp
  next
    fix resp s' assume r: "respond e rq s = Inr (resp, s')" "subscription s"
    have "post e rq s = s'" using r respond_frame[OF r(1)] assms by (simp add: post_def)
    with respond_frame[OF r(1)] assms Post show ?thesis by simp
  qed
next
  case (DeckStats spyId stats)
  with assms show ?thesis by (simp add: batchDeckStats_frame)
next
  case (Timeout t)
  with assms show ?thesis by (simp add: batchTimeout_def)
next
  case Teardown
  with assms show ?thesis by (simp add: teardown_def Let_def split: option.splits)
qed

lemma run_Nil: "run e [] s = s" by (simp add: run_def)

lemma run_Cons: "run e (ev # es) s = run e es (step e ev s)" by (simp add: run_def)

lemma run_disconnected:
  "\<not> connection s \<Longrightarrow> \<not> connection (run e es s) \<and> posted (run e es s) = posted s"
proof (induction es arbitrary: s)
  case Nil
  then show ?case by (simp add: run_Nil)
next
  case (Cons ev es)
  from step_disconnected[OF Cons.prems, of e ev] Cons.IH[of "step e ev s"]
  show ?case by (simp add: run_Cons)
qed

lemma teardown_facts:
  "\<not> connection (teardown s) \<and> batchTimeoutId (teardown s) = None
   \<and> posted (teardown s) = posted s \<and> batchQueue (teardown s) = batchQueue s
   \<and> (\<forall>t. batchTimeoutId s = Some t \<longrightarrow> t \<notin> set (map fst (timers (teardown s))))"
  by (auto simp: teardown_def Let_def clearTimeout_def split: option.splits)

lemma foldl_count:
  "foldl (\<lambda>c m. if broadcastType m = Some ''notification'' then c + 1 else c) c0 q
     = c0 + length (filter (\<lambda>m. broadcastType m = Some ''notification'') q)"
  by (induction q arbitrary: c0) auto

lemma notificationCount_filter:
  "notificationCount q = length (filter (\<lambda>m. broadcastType m = Some ''notification'') q)"
  by (simp add: notificationCount_def foldl_count)

lemma notifications_count: "notificationCount (notifications e hs) = length hs"
  by (induction hs) (simp_all add: notificationCount_filter notifications_def)

lemma notifications_dropped:
  "filter (\<lambda>m. broadcastType m \<noteq> Some ''notification'') (notifications e hs) = []"
  by (induction hs) (simp_all add: notifications_def)

lemma notifications_snoc:
  "notifications e (hs @ [x])
     = notifications e hs
       @ [Broadcast (BroadcastNotification (toNotification e (notificationRef (fst x)) (snd x)))]"
  by (simp add: notifications_def)

lemma collapse_step:
  assumes "connection s" "\<not> snapshotHinted s" "batchTimeoutId s \<noteq> None"
    "BATCH_NOTIFICATIONS e < notificationCount (batchQueue s)"
  shows "batchQueue (batchNotification e r a s)
           = filter (\<lambda>m. broadcastType m \<noteq> Some ''notification'') (batchQueue s)
             @ [Broadcast BroadcastSnapshotHint]"
    and "snapshotHinted (batchNotification e r a s)"
    and "connection (batchNotification e r a s)"
    and "batchTimeoutId (batchNotification e r a s) = batchTimeoutId s"
    and "enqueued (batchNotification e r a s) = enqueued s @ [Broadcast BroadcastSnapshotHint]"
  using assms by (simp_all add: batchNotification_def batchMessage_def)

lemma enqueue_step:
  assumes "connection s" "\<not> snapshotHinted s"
    "\<not> BATCH_NOTIFICATIONS e < notificationCount (batchQueue s)"
  shows "batchQueue (batchNotification e r a s)
           = (if batchTimeoutId s \<noteq> None then batchQueue s else [])
             @ [Broadcast (BroadcastNotification (toNotification e r a))]"
    and "\<not> snapshotHinted (batchNotification e r a s)"
    and "connection (batchNotification e r a s)"
    and "batchTimeoutId (batchNotification e r a s) \<noteq> None"
  using assms by (simp_all add: batchNotification_def batchMessage_def)

lemma suppressed_step: "snapshotHinted s \<Longrightarrow> batchNotification e r a s = s"
  by (simp add: batchNotification_def)

lemma lifecycle_run:
  assumes "connection s" "\<not> snapshotHinted s" "batchTimeoutId s = None" "batchQueue s = []"
  shows "connection (run e (lifecycles hs) s)
       \<and> (hs \<noteq> [] \<longrightarrow> batchTimeoutId (run e (lifecycles hs) s) \<noteq> None)
       \<and> (length hs \<le> BATCH_NOTIFICATIONS e + 1 \<longrightarrow>
            batchQueue (run e (lifecycles hs) s) = notifications e hs
            \<and> \<not> snapshotHinted (run e (lifecycles hs) s))
       \<and> (BATCH_NOTIFICATIONS e + 2 \<le> length hs \<longrightarrow>
            batchQueue (run e (lifecycles hs) s) = [Broadcast BroadcastSnapshotHint]
            \<and> snapshotHinted (run e (lifecycles hs) s))"
proof (induction hs rule: rev_induct)
  case Nil
  with assms show ?case by (simp add: lifecycles_def run_Nil notifications_def)
next
  case (snoc x hs)
  define s' where "s' = run e (lifecycles hs) s"
  define r where "r = notificationRef (fst x)"
  have st: "run e (lifecycles (hs @ [x])) s = batchNotification e r (snd x) s'"
    by (simp add: lifecycles_def run_def s'_def r_def)
  from snoc.IH have conn: "connection s'"
    and tid: "hs \<noteq> [] \<Longrightarrow> batchTimeoutId s' \<noteq> None"
    and few: "length hs \<le> BATCH_NOTIFICATIONS e + 1 \<Longrightarrow>
                batchQueue s' = notifications e hs \<and> \<not> snapshotHinted s'"
    and many: "BATCH_NOTIFICATIONS e + 2 \<le> length hs \<Longrightarrow>
                batchQueue s' = [Broadcast BroadcastSnapshotHint] \<and> snapshotHinted s'"
    by (simp_all add: s'_def)
  have tid0: "hs = [] \<Longrightarrow> batchTimeoutId s' = None"
    using assms by (simp add: s'_def lifecycles_def run_Nil)
  consider (a) "length hs \<le> BATCH_NOTIFICATIONS e"
    | (b) "length hs = BATCH_NOTIFICATIONS e + 1"
    | (c) "BATCH_NOTIFICATIONS e + 2 \<le> length hs"
    by linarith
  then show ?case
  proof cases
    case a
    then have q: "batchQueue s' = notifications e hs" and nh: "\<not> snapshotHinted s'"
      using few by simp_all
    have cnt: "\<not> BATCH_NOTIFICATIONS e < notificationCount (batchQueue s')"
      using a by (simp add: q notifications_count)
    have q': "batchQueue (batchNotification e r (snd x) s') = notifications e (hs @ [x])"
    proof (cases "hs = []")
      case True
      then show ?thesis
        using enqueue_step(1)[OF conn nh cnt, of r "snd x"] tid0
        by (simp add: notifications_def r_def)
    next
      case False
      then show ?thesis
        using enqueue_step(1)[OF conn nh cnt, of r "snd x"] tid
        by (simp add: notifications_snoc q r_def)
    qed
    from a q' enqueue_step(2-4)[OF conn nh cnt, of r "snd x"] show ?thesis
      unfolding st by simp
  next
    case b
    then have q: "batchQueue s' = notifications e hs" and nh: "\<not> snapshotHinted s'"
      using few by simp_all
    have cnt: "BATCH_NOTIFICATIONS e < notificationCount (batchQueue s')"
      using b by (simp add: q notifications_count)
    have ne: "hs \<noteq> []" using b by auto
    from b collapse_step(1-4)[OF conn nh tid[OF ne] cnt, of r "snd x"] tid[OF ne]
    show ?thesis unfolding st by (simp add: q notifications_dropped)
  next
    case c
    then have q: "batchQueue s' = [Broadcast BroadcastSnapshotHint]" and h: "snapshotHinted s'"
      using many by simp_all
    have ne: "hs \<noteq> []" using c by auto
    from c q h conn tid[OF ne] show ?thesis
      unfolding st by (simp add: suppressed_step)
  qed
qed

lemma window_inv_step: "window_inv s \<Longrightarrow> window_inv (step e ev s)"
proof (cases ev)
  case (Lifecycle h a)
  assume "window_inv s"
  with Lifecycle show ?thesis
    by (simp add: window_inv_def batchNotification_def batchMessage_def)
next
  case (Post rq)
  assume w: "window_inv s"
  from post_cases[of e rq s] show ?thesis
  proof (elim disjE exE conjE)
    assume "post e rq s = s" with w Post show ?thesis by simp
  next
    assume "post e rq s = s\<lparr>subscription := False\<rparr>"
    with w Post show ?thesis by (simp add: window_inv_def)
  next
    fix resp s' assume r: "respond e rq s = Inr (resp, s')" and p: "post e rq s = s'"
    from respond_frame[OF r] w p Post show ?thesis by (simp add: window_inv_def)
  next
    fix resp s' assume r: "respond e rq s = Inr (resp, s')"
      and p: "post e rq s = s'\<lparr>posted := posted s' @ [Response resp]\<rparr>"
    from respond_frame[OF r] w p Post show ?thesis by (simp add: window_inv_def)
  qed
next
  case (DeckStats spyId stats)
  assume "window_inv s"
  with DeckStats show ?thesis by (simp add: window_inv_def batchDeckStats_frame)
next
  case (Timeout t)
  assume "window_inv s"
  with Timeout show ?thesis by (simp add: window_inv_def batchTimeout_def)
next
  case Teardown
  assume "window_inv s"
  with Teardown show ?thesis
    by (simp add: window_inv_def teardown_def Let_def split: option.splits)
qed

lemma window_inv_run: "window_inv s \<Longrightarrow> window_inv (run e es s)"
  by (induction es arbitrary: s) (simp_all add: run_Nil run_Cons window_inv_step)

lemma window_inv_constructor: "window_inv (constructor ext sp)"
  by (simp add: window_inv_def constructor_def)

lemma count_pos_nonempty: "n < notificationCount q \<Longrightarrow> q \<noteq> []"
  by (auto simp: notificationCount_def)

lemma lifecycle_frame:
  assumes "window_inv s"
  shows "filter (\<lambda>m. broadcastType m \<noteq> Some ''notification'')
           (batchQueue (step e (Lifecycle h a) s))
         = filter (\<lambda>m. broadcastType m \<noteq> Some ''notification'') (batchQueue s)
           @ (if connection s \<and> \<not> snapshotHinted s
                 \<and> BATCH_NOTIFICATIONS e < notificationCount (batchQueue s)
              then [Broadcast BroadcastSnapshotHint] else [])"
proof (cases "connection s \<and> \<not> snapshotHinted s")
  case False
  then show ?thesis by (auto simp: batchNotification_def)
next
  case True
  then have c: "connection s" and nh: "\<not> snapshotHinted s" by simp_all
  show ?thesis
  proof (cases "BATCH_NOTIFICATIONS e < notificationCount (batchQueue s)")
    case True
    from count_pos_nonempty[OF True] assms c have t: "batchTimeoutId s \<noteq> None"
      by (auto simp: window_inv_def)
    from collapse_step(1)[OF c nh t True, of "notificationRef h" a] True c nh
    show ?thesis by simp
  next
    case False
    have "batchTimeoutId s = None \<Longrightarrow> batchQueue s = []"
      using assms c by (simp add: window_inv_def)
    with enqueue_step(1)[OF c nh False, of "notificationRef h" a] False
    show ?thesis by auto
  qed
qed

lemma lifecycle_collapse:
  assumes "window_inv s" "connection s" "\<not> snapshotHinted s"
    "BATCH_NOTIFICATIONS e < notificationCount (batchQueue s)"
  shows "batchQueue (step e (Lifecycle h a) s)
         = filter (\<lambda>m. broadcastType m \<noteq> Some ''notification'') (batchQueue s)
           @ [Broadcast BroadcastSnapshotHint]"
proof -
  from count_pos_nonempty[OF assms(4)] assms(1,2) have t: "batchTimeoutId s \<noteq> None"
    by (auto simp: window_inv_def)
  from collapse_step(1)[OF assms(2,3) t assms(4), of "notificationRef h" a] show ?thesis by simp
qed

lemma batchDeckStats_flag:
  "batchDeckStats e st (s\<lparr>snapshotHinted := b\<rparr>) = (batchDeckStats e st s)\<lparr>snapshotHinted := b\<rparr>"
  by (simp add: batchDeckStats_def batchMessage_def)

lemma plugin_inv_cong:
  "spy s' = spy s \<Longrightarrow> plugins s' = plugins s \<Longrightarrow> plugin_inv s' = plugin_inv s"
  by (simp add: plugin_inv_def)

lemma recordPlugin_inv: "plugin_inv s \<Longrightarrow> plugin_inv (recordPlugin spyId pluginId p s)"
  unfolding plugin_inv_def recordPlugin_def
  by (auto simp: less_Suc_eq split: if_splits) fastforce+

lemma teardownPlugin_inv: "plugin_inv s \<Longrightarrow> plugin_inv (teardownPlugin pluginId s)"
  unfolding plugin_inv_def teardownPlugin_def
  by (auto split: option.splits if_splits)

lemma teardownPlugin_absent: "plugins s pluginId = None \<Longrightarrow> teardownPlugin pluginId s = s"
  by (simp add: teardownPlugin_def)

lemma teardownPlugin_removes: "plugins (teardownPlugin pluginId s) pluginId = None"
  by (simp add: teardownPlugin_def split: option.splits)

lemma teardownPlugin_twice:
  "teardownPlugin pluginId (teardownPlugin pluginId s) = teardownPlugin pluginId s"
  by (rule teardownPlugin_absent[OF teardownPlugin_removes])

lemma pauseCommand_inv:
  "pauseCommand e rq resp0 s = Inr (resp, s') \<Longrightarrow> plugin_inv s \<Longrightarrow> plugin_inv s'"
  unfolding plugin_inv_def pauseCommand_def
  by (auto split: option.splits if_splits Plugin.splits)

lemma respond_inv:
  assumes "respond e rq s = Inr (resp, s')" and "plugin_inv s"
  shows "plugin_inv s'"
proof -
  consider (log) "rq_requestType rq = ''log''"
    | (pause) "rq_requestType rq = ''pause''"
    | (ltd) "rq_requestType rq = ''log-teardown''"
    | (ptd) "rq_requestType rq = ''pause-teardown''"
    | (cmd) "rq_requestType rq = ''pause-command''"
    | (snap) "rq_requestType rq = ''snapshot''"
    | (other) "rq_requestType rq \<noteq> ''log''" "rq_requestType rq \<noteq> ''pause''"
        "rq_requestType rq \<noteq> ''log-teardown''" "rq_requestType rq \<noteq> ''pause-teardown''"
        "rq_requestType rq \<noteq> ''pause-command''" "rq_requestType rq \<noteq> ''snapshot''"
    by blast
  then show ?thesis
  proof cases
    case log
    with assms(1) have "s' = recordPlugin (rq_spyId rq) (rq_postId rq) (LogPlugin (rq_spyId rq)) s"
      by (simp add: respond_def)
    with assms(2) show ?thesis by (simp add: recordPlugin_inv)
  next
    case pause
    with assms(1) have "s' = (recordPlugin (rq_spyId rq) (rq_postId rq)
                      (PausePlugin (rq_spyId rq) (newDeck e (rq_spyId rq))) s)
                   \<lparr>statsSubscriptions := statsSubscriptions s @ [rq_spyId rq]\<rparr>"
      by (simp add: respond_def)
    then have "plugin_inv s' = plugin_inv (recordPlugin (rq_spyId rq) (rq_postId rq)
                      (PausePlugin (rq_spyId rq) (newDeck e (rq_spyId rq))) s)"
      by (simp add: plugin_inv_def)
    with assms(2) show ?thesis by (simp add: recordPlugin_inv)
  next
    case ltd
    with assms(1) have "s' = teardownPlugin (rq_pluginId rq) s"
      by (simp add: respond_def)
    with assms(2) show ?thesis by (simp add: teardownPlugin_inv)
  next
    case ptd
    with assms(1) have "s' = teardownPlugin (rq_pluginId rq) s"
      by (simp add: respond_def)
    with assms(2) show ?thesis by (simp add: teardownPlugin_inv)
  next
    case cmd
    with assms(1) have "pauseCommand e rq \<lparr>rs_request = rq, rs_error = None, rs_pluginId = None,
                      rs_snapshot = None\<rparr> s = Inr (resp, s')"
      by (simp add: respond_def)
    from pauseCommand_inv[OF this assms(2)] show ?thesis .
  next
    case snap
    with assms(1) have "s' = s\<lparr>snapshotHinted := False\<rparr>"
      by (simp add: respond_def Let_def split: option.splits)
    then have "plugin_inv s' = plugin_inv s" by (simp add: plugin_inv_def)
    with assms(2) show ?thesis by simp
  next
    case other
    with assms(1) have "s' = s" by (simp add: respond_def)
    with assms(2) show ?thesis by simp
  qed
qed

lemma step_frame_plugins:
  "spy (batchNotification e r a s) = spy s \<and> plugins (batchNotification e r a s) = plugins s"
  "spy (batchDeckStats e st s) = spy s \<and> plugins (batchDeckStats e st s) = plugins s"
  "spy (batchTimeout s) = spy s \<and> plugins (batchTimeout s) = plugins s"
  "spy (teardown s) = spy s \<and> plugins (teardown s) = plugins s"
  by (simp_all add: batchNotification_def batchDeckStats_def batchMessage_def batchTimeout_def
        teardown_def Let_def split: option.splits)

lemma plugin_inv_step: "plugin_inv s \<Longrightarrow> plugin_inv (step e ev s)"
proof (cases ev)
  case (Lifecycle h a)
  assume "plugin_inv s"
  with Lifecycle plugin_inv_cong[of "batchNotification e (notificationRef h) a s" s]
  show ?thesis by (simp add: step_frame_plugins)
next
  case (Post rq)
  assume w: "plugin_inv s"
  from post_cases[of e rq s] show ?thesis
  proof (elim disjE exE conjE)
    assume "post e rq s = s" with w Post show ?thesis by simp
  next
    assume "post e rq s = s\<lparr>subscription := False\<rparr>"
    with w Post plugin_inv_cong[of "s\<lparr>subscription := False\<rparr>" s] show ?thesis by simp
  next
    fix resp s' assume r: "respond e rq s = Inr (resp, s')" and p: "post e rq s = s'"
    from respond_inv[OF r w] p Post show ?thesis by simp
  next
    fix resp s' assume r: "respond e rq s = Inr (resp, s')"
      and p: "post e rq s = s'\<lparr>posted := posted s' @ [Response resp]\<rparr>"
    from respond_inv[OF r w] p Post
      plugin_inv_cong[of "s'\<lparr>posted := posted s' @ [Response resp]\<rparr>" s']
    show ?thesis by simp
  qed
next
  case (DeckStats spyId stats)
  assume "plugin_inv s"
  with DeckStats plugin_inv_cong[of "batchDeckStats e (toStats spyId stats) s" s]
  show ?thesis by (simp add: step_frame_plugins)
next
  case (Timeout t)
  assume "plugin_inv s"
  with Timeout plugin_inv_cong[of "batchTimeout (s\<lparr>timers := clearTimeout t (timers s)\<rparr>)" s]
  show ?thesis by (simp add: step_frame_plugins)
next
  case Teardown
  assume "plugin_inv s"
  with Teardown plugin_inv_cong[of "teardown s" s]
  show ?thesis by (simp add: step_frame_plugins)
qed

lemma plugin_inv_run: "plugin_inv s \<Longrightarrow> plugin_inv (run e es s)"
  by (induction es arbitrary: s) (simp_all add: run_Nil run_Cons plugin_inv_step)

lemma plugin_inv_constructor:
  "sp_teardownCalls sp = [] \<Longrightarrow> plugin_inv (constructor ext sp)"
  by (simp add: plugin_inv_def constructor_def)

lemma teardown_calls_distinct:
  "sp_teardownCalls sp = [] \<Longrightarrow> distinct (sp_teardownCalls (spy (run e es (constructor ext sp))))"
  using plugin_inv_run[OF plugin_inv_constructor, of sp e es ext] by (simp add: plugin_inv_def)

lemma absent_respond:
  assumes "plugins s (rq_pluginId rq) = None"
    and "rq_requestType rq \<in> {''pause-command'', ''log-teardown'', ''pause-teardown''}"
  shows "respond e rq s = Inr (\<lparr>rs_request = rq, rs_error = None, rs_pluginId = None,
                                 rs_snapshot = None\<rparr>, s)"
proof -
  from assms(2) consider "rq_requestType rq = ''pause-command''"
    | "rq_requestType rq = ''log-teardown''" | "rq_requestType rq = ''pause-teardown''"
    by blast
  then show ?thesis
    using assms(1) by cases (simp_all add: respond_def pauseCommand_def teardownPlugin_def)
qed

lemma respond_flag_kept:
  "respond e rq s = Inr (resp, s') \<Longrightarrow> snapshotHinted s' \<Longrightarrow> snapshotHinted s"
  by (auto simp: respond_def pauseCommand_def recordPlugin_def teardownPlugin_def Let_def
           split: if_splits option.splits Plugin.splits)

lemma hints_snoc:
  "hints (ms @ [m]) = hints ms + (if broadcastType m = Some ''snapshot-hint'' then 1 else 0)"
  by (simp add: hints_def)

lemma lifecycle_enqueued:
  "enqueued (batchNotification e r a s)
     = enqueued s
       @ (if connection s \<and> \<not> snapshotHinted s
          then if BATCH_NOTIFICATIONS e < notificationCount (batchQueue s)
               then [Broadcast BroadcastSnapshotHint]
               else [Broadcast (BroadcastNotification (toNotification e r a))]
          else [])"
  by (simp add: batchNotification_def batchMessage_def)

lemma lifecycle_flag:
  "snapshotHinted (batchNotification e r a s)
     = (snapshotHinted s
        \<or> (connection s \<and> BATCH_NOTIFICATIONS e < notificationCount (batchQueue s)))"
  by (simp add: batchNotification_def batchMessage_def)

lemma post_frame:
  "enqueued (post e rq s) = enqueued s
   \<and> (snapshotHinted (post e rq s) \<longrightarrow> snapshotHinted s)"
proof -
  from post_cases[of e rq s] show ?thesis
  proof (elim disjE exE conjE)
    assume "post e rq s = s" then show ?thesis by simp
  next
    assume "post e rq s = s\<lparr>subscription := False\<rparr>" then show ?thesis by simp
  next
    fix resp s' assume r: "respond e rq s = Inr (resp, s')" and p: "post e rq s = s'"
    from respond_frame[OF r] respond_flag_kept[OF r] p show ?thesis by simp
  next
    fix resp s' assume r: "respond e rq s = Inr (resp, s')"
      and p: "post e rq s = s'\<lparr>posted := posted s' @ [Response resp]\<rparr>"
    from respond_frame[OF r] respond_flag_kept[OF r] p show ?thesis by simp
  qed
qed

lemma other_enqueued:
  "hints (enqueued (batchDeckStats e st s)) = hints (enqueued s)"
  "enqueued (batchTimeout s) = enqueued s"
  "enqueued (teardown s) = enqueued s"
  "snapshotHinted (batchTimeout s) = snapshotHinted s"
  "snapshotHinted (teardown s) = snapshotHinted s"
  by (simp_all add: batchDeckStats_def batchMessage_def batchTimeout_def teardown_def
        hints_def Let_def split: option.splits)

lemma step_hints:
  "hints (enqueued (step e ev s))
     = hints (enqueued s) + (if \<not> snapshotHinted s \<and> snapshotHinted (step e ev s) then 1 else 0)"
proof (cases ev)
  case (Lifecycle h a)
  then show ?thesis by (simp add: lifecycle_enqueued lifecycle_flag hints_snoc)
next
  case (Post rq)
  with post_frame[of e rq s] show ?thesis by auto
next
  case (DeckStats spyId stats)
  then show ?thesis by (simp add: other_enqueued batchDeckStats_frame)
next
  case (Timeout t)
  then show ?thesis by (simp add: other_enqueued)
next
  case Teardown
  then show ?thesis by (simp add: other_enqueued)
qed

lemma run_hintedBefore:
  "hintedBefore e es s \<Longrightarrow> hints (enqueued (run e es s)) = hints (enqueued s)"
proof (induction es arbitrary: s)
  case Nil
  then show ?case by (simp add: run_Nil)
next
  case (Cons ev es)
  then have h: "snapshotHinted s" and r: "hintedBefore e es (step e ev s)" by simp_all
  from Cons.IH[OF r] step_hints[of e ev s] h show ?case by (simp add: run_Cons)
qed

lemma epoch_one_hint:
  assumes "\<not> snapshotHinted s" "snapshotHinted (step e ev s)" "hintedBefore e es (step e ev s)"
  shows "hints (enqueued (run e (ev # es) s)) = hints (enqueued s) + 1"
  using run_hintedBefore[OF assms(3)] step_hints[of e ev s] assms(1,2) by (simp add: run_Cons)

lemma hinted_lifecycle_noop: "snapshotHinted s \<Longrightarrow> step e (Lifecycle h a) s = s"
  by (simp add: suppressed_step)

lemma snapshot_clears:
  "subscription s \<Longrightarrow> rq_requestType rq = ''snapshot'' \<Longrightarrow> \<not> snapshotHinted (post e rq s)"
  by (simp add: post_def respond_def Let_def split: option.splits)

section \<open>The sample inputs, evaluated\<close>

lemma start0_eval:
  "start0 = \<lparr>batchQueue = [], batchTimeoutId = None, connection = True,
      plugins = Map.empty, snapshotHinted = False, spy = spy0, subscription = True,
      statsSubscriptions = [], timers = [], nextTimeoutId = 0, posted = [], enqueued = []\<rparr>"
  by (simp add: start0_def constructor_def)

lemma next0_step:
  "step e next0 s = batchNotification e (notificationRef (BeforeNext ref0 (Some 0))) amb0 s"
  by (simp add: next0_def)

lemma env0_simps:
  "BATCH_NOTIFICATIONS env0 = 2" "BATCH_MILLISECONDS env0 = 100" "newDeck env0 spyId = False"
  by (simp_all add: env0_def)

lemma busy0_eval:
  "busy0 = \<lparr>batchQueue = [note0, note0, note0], batchTimeoutId = Some 0, connection = True,
      plugins = Map.empty, snapshotHinted = False, spy = spy0, subscription = True,
      statsSubscriptions = [], timers = [(0, 100)], nextTimeoutId = 1, posted = [],
      enqueued = [note0, note0, note0]\<rparr>"
  by (simp add: busy0_def run_def start0_eval next0_step batchNotification_def batchMessage_def
        notificationCount_def env0_simps note0_def)

lemma hinted0_eval:
  "hinted0 = \<lparr>batchQueue = [Broadcast BroadcastSnapshotHint], batchTimeoutId = Some 0,
      connection = True, plugins = Map.empty, snapshotHinted = True, spy = spy0,
      subscription = True, statsSubscriptions = [], timers = [(0, 100)], nextTimeoutId = 1,
      posted = [], enqueued = [note0, note0, note0, Broadcast BroadcastSnapshotHint]\<rparr>"
  by (simp add: hinted0_def busy0_eval next0_step batchNotification_def batchMessage_def
        notificationCount_def env0_simps note0_def)

lemma paused0_eval:
  "paused0 = \<lparr>batchQueue = [], batchTimeoutId = None, connection = True,
      plugins = [''p1'' \<mapsto> \<lparr>pr_plugin = PausePlugin ''spy'' False, pr_pluginId = ''p1'',
                                pr_spyId = ''spy'', pr_teardown = 0\<rparr>],
      snapshotHinted = False,
      spy = \<lparr>sp_snapshot = None, sp_plugs = 1, sp_teardownCalls = []\<rparr>, subscription = True,
      statsSubscriptions = [''spy''], timers = [], nextTimeoutId = 0,
      posted = [Response \<lparr>rs_request = request0 ''pause'' [] [], rs_error = None,
                          rs_pluginId = Some ''p1'', rs_snapshot = None\<rparr>],
      enqueued = []\<rparr>"
  by (simp add: paused0_def start0_eval post_def respond_def recordPlugin_def request0_def
        env0_simps spy0_def)

lemma stale0_eval:
  "stale0 = paused0\<lparr>batchQueue := [Broadcast (BroadcastDeckStats \<lparr>ds_id = ''spy'', ds_stats = 5\<rparr>)],
      batchTimeoutId := Some 0, connection := False, subscription := False,
      timers := [(0, 100)], nextTimeoutId := 1,
      enqueued := [Broadcast (BroadcastDeckStats \<lparr>ds_id = ''spy'', ds_stats = 5\<rparr>)]\<rparr>"
  by (simp add: stale0_def run_def paused0_eval teardown_def batchDeckStats_def batchMessage_def
        toStats_def env0_simps)

lemma lifecycles_next0:
  "lifecycles [(BeforeNext ref0 (Some 0), amb0), (BeforeNext ref0 (Some 0), amb0),
               (BeforeNext ref0 (Some 0), amb0)] = [next0, next0, next0]"
  "lifecycles [(BeforeNext ref0 (Some 0), amb0), (BeforeNext ref0 (Some 0), amb0),
               (BeforeNext ref0 (Some 0), amb0), (BeforeNext ref0 (Some 0), amb0)]
     = [next0, next0, next0, next0]"
  by (simp_all add: lifecycles_def next0_def)

lemma busy0_count: "notificationCount (batchQueue busy0) = 3"
  by (simp add: busy0_eval notificationCount_def note0_def)

section \<open>The claims\<close>

subsection \<open>C1: the overload policy\<close>

text \<open>
  C1, as the code has it. A hook call made while a window is open and more than
  \<^verbatim>\<open>BATCH_NOTIFICATIONS\<close> notification broadcasts are queued removes the queued
  notifications, appends one snapshot-hint broadcast and sets \<^verbatim>\<open>snapshotHinted_\<close>. In a
  window that a hook call opened and that holds notifications only, the first
  \<^verbatim>\<open>BATCH_NOTIFICATIONS + 1\<close> hook calls are all enqueued and the flag stays clear; from
  the call number \<^verbatim>\<open>BATCH_NOTIFICATIONS + 2\<close> on the queue is the single hint and the flag
  is set. While the flag is set a hook call changes nothing; only a snapshot request
  clears the flag, and every snapshot request that is handled does.
\<close>

theorem overload_collapse:
  "(connection s \<and> \<not> snapshotHinted s \<and> batchTimeoutId s \<noteq> None
      \<and> BATCH_NOTIFICATIONS e < notificationCount (batchQueue s) \<longrightarrow>
        batchQueue (step e (Lifecycle h a) s)
          = filter (\<lambda>m. broadcastType m \<noteq> Some ''notification'') (batchQueue s)
            @ [Broadcast BroadcastSnapshotHint]
        \<and> snapshotHinted (step e (Lifecycle h a) s))
   \<and> (connection s \<and> \<not> snapshotHinted s \<and> batchTimeoutId s = None \<and> batchQueue s = [] \<longrightarrow>
        (length hs \<le> BATCH_NOTIFICATIONS e + 1 \<longrightarrow>
           batchQueue (run e (lifecycles hs) s) = notifications e hs
           \<and> \<not> snapshotHinted (run e (lifecycles hs) s))
        \<and> (BATCH_NOTIFICATIONS e + 2 \<le> length hs \<longrightarrow>
           batchQueue (run e (lifecycles hs) s) = [Broadcast BroadcastSnapshotHint]
           \<and> snapshotHinted (run e (lifecycles hs) s)))
   \<and> (snapshotHinted s \<longrightarrow> step e (Lifecycle h a) s = s)
   \<and> (snapshotHinted s \<and> \<not> snapshotHinted (step e ev s) \<longrightarrow>
        (\<exists>rq. ev = Post rq \<and> rq_requestType rq = ''snapshot''))
   \<and> (subscription s \<and> rq_requestType rq = ''snapshot'' \<longrightarrow>
        \<not> snapshotHinted (step e (Post rq) s))"
proof -
  have a: "connection s \<and> \<not> snapshotHinted s \<and> batchTimeoutId s \<noteq> None
      \<and> BATCH_NOTIFICATIONS e < notificationCount (batchQueue s) \<longrightarrow>
        batchQueue (step e (Lifecycle h a) s)
          = filter (\<lambda>m. broadcastType m \<noteq> Some ''notification'') (batchQueue s)
            @ [Broadcast BroadcastSnapshotHint]
        \<and> snapshotHinted (step e (Lifecycle h a) s)"
    using collapse_step(1,2)[of s e "notificationRef h" a] by simp
  have b: "connection s \<and> \<not> snapshotHinted s \<and> batchTimeoutId s = None \<and> batchQueue s = [] \<longrightarrow>
        (length hs \<le> BATCH_NOTIFICATIONS e + 1 \<longrightarrow>
           batchQueue (run e (lifecycles hs) s) = notifications e hs
           \<and> \<not> snapshotHinted (run e (lifecycles hs) s))
        \<and> (BATCH_NOTIFICATIONS e + 2 \<le> length hs \<longrightarrow>
           batchQueue (run e (lifecycles hs) s) = [Broadcast BroadcastSnapshotHint]
           \<and> snapshotHinted (run e (lifecycles hs) s))"
    using lifecycle_run[of s e hs] by blast
  have c: "snapshotHinted s \<longrightarrow> step e (Lifecycle h a) s = s"
    using hinted_lifecycle_noop[of s e h a] by blast
  have d: "snapshotHinted s \<and> \<not> snapshotHinted (step e ev s) \<longrightarrow>
        (\<exists>rq. ev = Post rq \<and> rq_requestType rq = ''snapshot'')"
    using hint_cleared_by[of s e ev] by blast
  have f: "subscription s \<and> rq_requestType rq = ''snapshot'' \<longrightarrow>
             \<not> snapshotHinted (step e (Post rq) s)"
    using snapshot_clears[of s rq e] by simp
  show ?thesis by (rule conjI[OF a conjI[OF b conjI[OF c conjI[OF d f]]]])
qed

theorem overload_collapse_witness:
  "batchQueue (step env0 next0 busy0) = [Broadcast BroadcastSnapshotHint]
   \<and> snapshotHinted (step env0 next0 busy0)
   \<and> batchQueue (run env0 [next0, next0, next0] start0) = [note0, note0, note0]
   \<and> \<not> snapshotHinted (run env0 [next0, next0, next0] start0)
   \<and> batchQueue (run env0 [next0, next0, next0, next0] start0) = [Broadcast BroadcastSnapshotHint]
   \<and> snapshotHinted (run env0 [next0, next0, next0, next0] start0)
   \<and> step env0 next0 hinted0 = hinted0
   \<and> \<not> snapshotHinted (step env0 (Post (request0 ''snapshot'' [] [])) hinted0)"
proof -
  have i1: "batchQueue (step env0 next0 busy0) = [Broadcast BroadcastSnapshotHint]
            \<and> snapshotHinted (step env0 next0 busy0)"
    using overload_collapse[where s = busy0 and e = env0 and h = "BeforeNext ref0 (Some 0)"
        and a = amb0]
    by (simp add: busy0_count env0_simps next0_def[symmetric])
      (simp add: busy0_eval note0_def)
  have i2: "batchQueue (run env0 [next0, next0, next0] start0) = [note0, note0, note0]
            \<and> \<not> snapshotHinted (run env0 [next0, next0, next0] start0)"
    using overload_collapse[where s = start0 and e = env0
        and hs = "[(BeforeNext ref0 (Some 0), amb0), (BeforeNext ref0 (Some 0), amb0),
                   (BeforeNext ref0 (Some 0), amb0)]"]
    by (simp add: lifecycles_next0 env0_simps start0_eval notifications_def note0_def)
  have i3: "batchQueue (run env0 [next0, next0, next0, next0] start0)
              = [Broadcast BroadcastSnapshotHint]
            \<and> snapshotHinted (run env0 [next0, next0, next0, next0] start0)"
    using overload_collapse[where s = start0 and e = env0
        and hs = "[(BeforeNext ref0 (Some 0), amb0), (BeforeNext ref0 (Some 0), amb0),
                   (BeforeNext ref0 (Some 0), amb0), (BeforeNext ref0 (Some 0), amb0)]"]
    by (simp add: lifecycles_next0 env0_simps start0_eval)
  have i4: "step env0 next0 hinted0 = hinted0
            \<and> \<not> snapshotHinted (step env0 (Post (request0 ''snapshot'' [] [])) hinted0)"
    using overload_collapse[where s = hinted0 and e = env0 and h = "BeforeNext ref0 (Some 0)"
        and a = amb0 and rq = "request0 ''snapshot'' [] []"]
    by (simp add: hinted0_eval next0_def[symmetric] request0_def)
  from i1 i2 i3 i4 show ?thesis by simp
qed

text \<open>
  The claim as worded fails: with \<^verbatim>\<open>BATCH_NOTIFICATIONS = 2\<close>, three notification
  broadcasts in one window are all queued, the flag is clear, and the timeout posts the
  three of them.
\<close>

theorem overload_threshold_counterexample:
  "BATCH_NOTIFICATIONS env0 + 1 = 3
   \<and> batchQueue (run env0 [next0, next0, next0] start0) = [note0, note0, note0]
   \<and> \<not> snapshotHinted (run env0 [next0, next0, next0] start0)
   \<and> posted (run env0 [next0, next0, next0, Timeout 0] start0) = [Batch [note0, note0, note0]]"
proof -
  have "run env0 [next0, next0, next0, Timeout 0] start0 = step env0 (Timeout 0) busy0"
    by (simp add: busy0_def run_def)
  then show ?thesis
    using busy0_eval by (simp add: busy0_def env0_simps batchTimeout_def clearTimeout_def)
qed

subsection \<open>C2: clearing the flag\<close>

text \<open>
  C2, as the code has it. Once \<^verbatim>\<open>snapshotHinted_\<close> is set, the only event that clears it
  is a snapshot request handled by the plugin; and every handled snapshot request clears
  it, also when no snapshot plugin is found and the response carries the error
  \<^verbatim>\<open>Cannot find snapshot plugin.\<close> instead of a snapshot.
\<close>

theorem hint_cleared_only_by_snapshot_request:
  "(snapshotHinted s \<and> \<not> snapshotHinted (step e ev s) \<longrightarrow>
      (\<exists>rq. ev = Post rq \<and> rq_requestType rq = ''snapshot'' \<and> subscription s))
   \<and> (subscription s \<and> rq_requestType rq = ''snapshot'' \<longrightarrow>
        \<not> snapshotHinted (step e (Post rq) s)
        \<and> (sp_snapshot (spy s) = None \<longrightarrow>
             respond e rq s
               = Inr (\<lparr>rs_request = rq, rs_error = Some ''Cannot find snapshot plugin.'',
                       rs_pluginId = None, rs_snapshot = None\<rparr>,
                      s\<lparr>snapshotHinted := False\<rparr>)))"
proof -
  have a: "snapshotHinted s \<and> \<not> snapshotHinted (step e ev s) \<longrightarrow>
      (\<exists>rq. ev = Post rq \<and> rq_requestType rq = ''snapshot'' \<and> subscription s)"
    using hint_cleared_by[of s e ev] by blast
  have b: "subscription s \<and> rq_requestType rq = ''snapshot'' \<longrightarrow>
        \<not> snapshotHinted (step e (Post rq) s)
        \<and> (sp_snapshot (spy s) = None \<longrightarrow>
             respond e rq s
               = Inr (\<lparr>rs_request = rq, rs_error = Some ''Cannot find snapshot plugin.'',
                       rs_pluginId = None, rs_snapshot = None\<rparr>,
                      s\<lparr>snapshotHinted := False\<rparr>))"
    using snapshot_clears[of s rq e] by (simp add: respond_def)
  show ?thesis by (rule conjI[OF a b])
qed

lemma hinted0_snapshot:
  "post env0 (request0 ''snapshot'' [] []) hinted0
     = hinted0\<lparr>snapshotHinted := False,
         posted := [Response \<lparr>rs_request = request0 ''snapshot'' [] [],
                      rs_error = Some ''Cannot find snapshot plugin.'',
                      rs_pluginId = None, rs_snapshot = None\<rparr>]\<rparr>"
  by (simp add: hinted0_eval post_def respond_def request0_def spy0_def)

theorem hint_cleared_only_by_snapshot_request_witness:
  "snapshotHinted hinted0
   \<and> \<not> snapshotHinted (step env0 (Post (request0 ''snapshot'' [] [])) hinted0)
   \<and> (\<exists>rq. (Post (request0 ''snapshot'' [] []) :: (nat, nat) event) = Post rq
          \<and> rq_requestType rq = ''snapshot'' \<and> subscription hinted0)
   \<and> respond env0 (request0 ''snapshot'' [] []) hinted0
       = Inr (\<lparr>rs_request = request0 ''snapshot'' [] [],
               rs_error = Some ''Cannot find snapshot plugin.'',
               rs_pluginId = None, rs_snapshot = None\<rparr>,
              hinted0\<lparr>snapshotHinted := False\<rparr>)"
proof -
  have h: "snapshotHinted hinted0" "subscription hinted0" "sp_snapshot (spy hinted0) = None"
    "rq_requestType (request0 ''snapshot'' [] []) = ''snapshot''"
    by (simp_all add: hinted0_eval spy0_def request0_def)
  have n: "\<not> snapshotHinted (step env0 (Post (request0 ''snapshot'' [] [])) hinted0)"
    by (simp add: hinted0_snapshot)
  from hint_cleared_only_by_snapshot_request[where s = hinted0 and e = env0
      and ev = "Post (request0 ''snapshot'' [] [])" and rq = "request0 ''snapshot'' [] []"] h n
  show ?thesis by blast
qed

text \<open>
  The claim as worded fails: with the flag set and no snapshot plugin attached, a
  snapshot request clears the flag, and the response that is posted holds the error and
  no snapshot.
\<close>

theorem hint_cleared_without_snapshot_counterexample:
  "snapshotHinted hinted0
   \<and> sp_snapshot (spy hinted0) = None
   \<and> \<not> snapshotHinted (step env0 (Post (request0 ''snapshot'' [] [])) hinted0)
   \<and> posted (step env0 (Post (request0 ''snapshot'' [] [])) hinted0)
       = [Response \<lparr>rs_request = request0 ''snapshot'' [] [],
                      rs_error = Some ''Cannot find snapshot plugin.'',
                      rs_pluginId = None, rs_snapshot = None\<rparr>]"
  by (simp add: hinted0_snapshot) (simp add: hinted0_eval spy0_def)

subsection \<open>C3: the notification payload\<close>

text \<open>
  C3, as the code has it. For every hook call the payload's type is
  \<^verbatim>\<open><prefix>-<notification>\<close> with the prefix \<^verbatim>\<open>before\<close> or \<^verbatim>\<open>after\<close> and the notification one
  of \<^verbatim>\<open>subscribe\<close>, \<^verbatim>\<open>unsubscribe\<close>, \<^verbatim>\<open>next\<close>, \<^verbatim>\<open>error\<close>, \<^verbatim>\<open>complete\<close>: it is the prefix and the
  notification of the reference handed over, joined by a hyphen, and so, hook by hook,
  \<^verbatim>\<open>after-subscribe\<close>, \<^verbatim>\<open>after-unsubscribe\<close>, \<^verbatim>\<open>before-complete\<close>, \<^verbatim>\<open>before-error\<close>,
  \<^verbatim>\<open>before-next\<close>, \<^verbatim>\<open>before-subscribe\<close> and \<^verbatim>\<open>before-unsubscribe\<close>. Its value is present
  exactly for a \<^verbatim>\<open>next\<close> whose value is not \<^verbatim>\<open>undefined\<close>, and is then the serialised
  value; for every other call, \<^verbatim>\<open>error\<close> included, it is absent. The error of an
  \<^verbatim>\<open>error\<close> call is carried, as it is, in the subscription descriptor.
\<close>

theorem notification_payload:
  "(\<exists>p n. p \<in> {''before'', ''after''}
        \<and> n \<in> {''subscribe'', ''unsubscribe'', ''next'', ''error'', ''complete''}
        \<and> np_type (toNotification e (notificationRef h) a) = p @ ''-'' @ n)
   \<and> np_value (toNotification e (notificationRef h) a)
       = (case h of BeforeNext r (Some v) \<Rightarrow> Some \<lparr>json = stringify e v\<rparr> | _ \<Rightarrow> None)
   \<and> ((np_value (toNotification e (notificationRef h) a) \<noteq> None)
        = (\<exists>r v. h = BeforeNext r (Some v)))
   \<and> sd_error (np_subscription (toNotification e (notificationRef h) a))
       = (case h of BeforeError r err \<Rightarrow> err | _ \<Rightarrow> None)
   \<and> np_type (toNotification e nr a) = nr_prefix nr @ ''-'' @ nr_notification nr
   \<and> (nr_prefix (notificationRef h), nr_notification (notificationRef h))
       = (case h of
            AfterSubscribe r \<Rightarrow> (''after'', ''subscribe'')
          | AfterUnsubscribe r \<Rightarrow> (''after'', ''unsubscribe'')
          | BeforeComplete r \<Rightarrow> (''before'', ''complete'')
          | BeforeError r err \<Rightarrow> (''before'', ''error'')
          | BeforeNext r v \<Rightarrow> (''before'', ''next'')
          | BeforeSubscribe r \<Rightarrow> (''before'', ''subscribe'')
          | BeforeUnsubscribe r \<Rightarrow> (''before'', ''unsubscribe''))
   \<and> np_type (toNotification e (notificationRef h) a)
       = (case h of
            AfterSubscribe r \<Rightarrow> ''after-subscribe''
          | AfterUnsubscribe r \<Rightarrow> ''after-unsubscribe''
          | BeforeComplete r \<Rightarrow> ''before-complete''
          | BeforeError r err \<Rightarrow> ''before-error''
          | BeforeNext r v \<Rightarrow> ''before-next''
          | BeforeSubscribe r \<Rightarrow> ''before-subscribe''
          | BeforeUnsubscribe r \<Rightarrow> ''before-unsubscribe'')"
  by (rule conjI[OF payload_type conjI[OF payload_value conjI[OF payload_value_present
        conjI[OF payload_error conjI[OF payload_type_ref conjI[OF notificationRef_hook payload_type_hook]]]]]])

text \<open>
  The claim as worded fails: the payload built for an \<^verbatim>\<open>error\<close> call has no value.
\<close>

theorem error_notification_value_counterexample:
  "np_type (toNotification env0 (notificationRef (BeforeError ref0 (Some 0))) amb0)
     = ''before-error''
   \<and> np_value (toNotification env0 (notificationRef (BeforeError ref0 (Some 0))) amb0) = None
   \<and> sd_error (np_subscription
        (toNotification env0 (notificationRef (BeforeError ref0 (Some 0))) amb0)) = Some 0"
  by (simp add: toNotification_def)

subsection \<open>C4: the batch window\<close>

text \<open>
  C4, as the code has it. A message enqueued while a window is open is appended to the
  queue. A message enqueued while none is open becomes the whole queue, and a timeout
  of \<^verbatim>\<open>BATCH_MILLISECONDS\<close> is armed. When the timeout falls due and the connection is
  there, the queue is posted as one batch, in the order of enqueuing, and the window
  closes; when the connection is gone, nothing is posted and the window stays open.
\<close>

theorem batch_window:
  "(batchTimeoutId s \<noteq> None \<longrightarrow>
      batchQueue (batchMessage e m s) = batchQueue s @ [m]
      \<and> batchTimeoutId (batchMessage e m s) = batchTimeoutId s
      \<and> timers (batchMessage e m s) = timers s)
   \<and> (batchTimeoutId s = None \<longrightarrow>
      batchQueue (batchMessage e m s) = [m]
      \<and> batchTimeoutId (batchMessage e m s) = Some (nextTimeoutId s)
      \<and> timers (batchMessage e m s) = timers s @ [(nextTimeoutId s, BATCH_MILLISECONDS e)])
   \<and> (batchTimeoutId s = None \<and> connection s \<longrightarrow>
      (let s' = step e (Timeout (nextTimeoutId s))
                  (foldl (\<lambda>s' m'. batchMessage e m' s') (batchMessage e m s) ms)
       in posted s' = posted s @ [Batch (m # ms)] \<and> batchTimeoutId s' = None
          \<and> batchQueue s' = []))
   \<and> (t \<in> set (map fst (timers s)) \<and> connection s \<longrightarrow>
      posted (step e (Timeout t) s) = posted s @ [Batch (batchQueue s)]
      \<and> batchTimeoutId (step e (Timeout t) s) = None
      \<and> batchQueue (step e (Timeout t) s) = [])
   \<and> (t \<in> set (map fst (timers s)) \<and> \<not> connection s \<longrightarrow>
      posted (step e (Timeout t) s) = posted s
      \<and> batchTimeoutId (step e (Timeout t) s) = batchTimeoutId s
      \<and> batchQueue (step e (Timeout t) s) = batchQueue s)"
  by (rule conjI[OF batchMessage_open conjI[OF batchMessage_new
        conjI[OF window_flushed conjI[OF timeout_connected timeout_disconnected]]]])

lemma stale0_timeout: "step env0 (Timeout 0) stale0 = stale0\<lparr>timers := []\<rparr>"
  by (simp add: stale0_eval paused0_eval batchTimeout_def clearTimeout_def)

theorem batch_window_witness:
  "batchQueue (batchMessage env0 (Broadcast BroadcastSnapshotHint) busy0)
     = [note0, note0, note0, Broadcast BroadcastSnapshotHint]
   \<and> batchQueue (batchMessage env0 note0 start0) = [note0]
   \<and> timers (batchMessage env0 note0 start0) = [(0, 100)]
   \<and> posted (step env0 (Timeout 0)
        (foldl (\<lambda>s' m'. batchMessage env0 m' s') (batchMessage env0 note0 start0)
           [Broadcast BroadcastSnapshotHint]))
       = [Batch [note0, Broadcast BroadcastSnapshotHint]]
   \<and> posted (step env0 (Timeout 0) busy0) = [Batch [note0, note0, note0]]
   \<and> batchQueue (step env0 (Timeout 0) busy0) = []
   \<and> posted (step env0 (Timeout 0) stale0) = posted stale0
   \<and> batchTimeoutId (step env0 (Timeout 0) stale0) = Some 0"
proof -
  have i1: "batchQueue (batchMessage env0 (Broadcast BroadcastSnapshotHint) busy0)
     = [note0, note0, note0, Broadcast BroadcastSnapshotHint]"
    using batch_window[where s = busy0 and e = env0 and m = "Broadcast BroadcastSnapshotHint"]
    by (simp add: busy0_eval)
  have i2: "batchQueue (batchMessage env0 note0 start0) = [note0]
     \<and> timers (batchMessage env0 note0 start0) = [(0, 100)]
     \<and> posted (step env0 (Timeout 0)
          (foldl (\<lambda>s' m'. batchMessage env0 m' s') (batchMessage env0 note0 start0)
             [Broadcast BroadcastSnapshotHint]))
         = [Batch [note0, Broadcast BroadcastSnapshotHint]]"
    using batch_window[where s = start0 and e = env0 and m = note0
        and ms = "[Broadcast BroadcastSnapshotHint]"]
    by (simp add: start0_eval env0_simps Let_def)
  have i3: "posted (step env0 (Timeout 0) busy0) = [Batch [note0, note0, note0]]
     \<and> batchQueue (step env0 (Timeout 0) busy0) = []"
    using batch_window[where s = busy0 and e = env0 and t = 0]
    by (simp add: busy0_eval)
  have i4: "posted (step env0 (Timeout 0) stale0) = posted stale0
     \<and> batchTimeoutId (step env0 (Timeout 0) stale0) = Some 0"
    using batch_window[where s = stale0 and e = env0 and t = 0]
    by (simp add: stale0_eval paused0_eval)
  from i1 i2 i3 i4 show ?thesis by simp
qed

text \<open>
  The claim as worded fails: after a pause request, the teardown of the plugin and
  statistics from the deck, a timeout is pending; when it falls due nothing is posted,
  and the queue and the timeout identifier stay as they were.
\<close>

theorem expiry_without_connection_counterexample:
  "stale0 = run env0 [Post (request0 ''pause'' [] []), Teardown, DeckStats ''spy'' 5] start0
   \<and> batchTimeoutId stale0 = Some 0
   \<and> timers stale0 = [(0, 100)]
   \<and> batchQueue stale0 = [Broadcast (BroadcastDeckStats \<lparr>ds_id = ''spy'', ds_stats = 5\<rparr>)]
   \<and> posted (step env0 (Timeout 0) stale0) = posted stale0
   \<and> batchQueue (step env0 (Timeout 0) stale0) = batchQueue stale0
   \<and> batchTimeoutId (step env0 (Timeout 0) stale0) = Some 0"
proof -
  have r: "stale0 = run env0 [Post (request0 ''pause'' [] []), Teardown, DeckStats ''spy'' 5] start0"
    by (simp add: stale0_def paused0_def run_def)
  have "batchTimeoutId stale0 = Some 0
   \<and> timers stale0 = [(0, 100)]
   \<and> batchQueue stale0 = [Broadcast (BroadcastDeckStats \<lparr>ds_id = ''spy'', ds_stats = 5\<rparr>)]
   \<and> posted (step env0 (Timeout 0) stale0) = posted stale0
   \<and> batchQueue (step env0 (Timeout 0) stale0) = batchQueue stale0
   \<and> batchTimeoutId (step env0 (Timeout 0) stale0) = Some 0"
    unfolding stale0_timeout by (simp add: stale0_eval)
  with r show ?thesis by (rule conjI)
qed

subsection \<open>C5: deck statistics\<close>

text \<open>
  C5. Enqueuing a deck-stats broadcast first removes every queued deck-stats message
  of the same id. So after two deck-stats broadcasts of one id, the only queued
  deck-stats message of that id is the second, and the batch posted when the timeout
  falls due holds that queue.
\<close>

theorem deck_stats_dedup:
  assumes "ds_id st2 = ds_id st1"
  shows "batchQueue (batchDeckStats e st1 s)
           = (if batchTimeoutId s \<noteq> None
              then filter (\<lambda>m. broadcastType m \<noteq> Some ''deck-stats''
                                \<or> stats_id m \<noteq> Some (ds_id st1))
                     (batchQueue s)
              else [])
             @ [Broadcast (BroadcastDeckStats st1)]
       \<and> filter (\<lambda>m. broadcastType m = Some ''deck-stats'' \<and> stats_id m = Some (ds_id st1))
           (batchQueue (batchDeckStats e st2 (batchDeckStats e st1 s)))
           = [Broadcast (BroadcastDeckStats st2)]
       \<and> (connection s
            \<and> t \<in> set (map fst (timers (batchDeckStats e st2 (batchDeckStats e st1 s)))) \<longrightarrow>
            posted (step e (Timeout t) (batchDeckStats e st2 (batchDeckStats e st1 s)))
              = posted s @ [Batch (batchQueue (batchDeckStats e st2 (batchDeckStats e st1 s)))])"
proof -
  define s2 where "s2 = batchDeckStats e st2 (batchDeckStats e st1 s)"
  have latest: "filter (\<lambda>m. broadcastType m = Some ''deck-stats'' \<and> stats_id m = Some (ds_id st1))
           (batchQueue s2) = [Broadcast (BroadcastDeckStats st2)]"
    using batchDeckStats_latest[of st2 e "batchDeckStats e st1 s"] assms by (simp add: s2_def)
  have fr: "connection s2 = connection s" "posted s2 = posted s"
    by (simp_all add: s2_def batchDeckStats_frame)
  have flush: "connection s \<and> t \<in> set (map fst (timers s2)) \<longrightarrow>
            posted (step e (Timeout t) s2) = posted s @ [Batch (batchQueue s2)]"
    by (simp add: batchTimeout_def fr)
  show ?thesis
    using batchDeckStats_queue[of e st1 s] latest flush unfolding s2_def by (intro conjI)
qed

lemma paused0_stats:
  "batchDeckStats env0 \<lparr>ds_id = ''spy'', ds_stats = 2\<rparr>
     (batchDeckStats env0 \<lparr>ds_id = ''spy'', ds_stats = 3\<rparr> paused0)
   = paused0\<lparr>batchQueue := [Broadcast (BroadcastDeckStats \<lparr>ds_id = ''spy'', ds_stats = 2\<rparr>)],
       batchTimeoutId := Some 0, timers := [(0, 100)], nextTimeoutId := 1,
       enqueued := [Broadcast (BroadcastDeckStats \<lparr>ds_id = ''spy'', ds_stats = 3\<rparr>),
                    Broadcast (BroadcastDeckStats \<lparr>ds_id = ''spy'', ds_stats = 2\<rparr>)]\<rparr>"
  by (simp add: paused0_eval batchDeckStats_def batchMessage_def env0_simps)

theorem deck_stats_dedup_witness:
  "batchQueue (batchDeckStats env0 \<lparr>ds_id = ''spy'', ds_stats = 2\<rparr>
                 (batchDeckStats env0 \<lparr>ds_id = ''spy'', ds_stats = 3\<rparr> paused0))
     = [Broadcast (BroadcastDeckStats \<lparr>ds_id = ''spy'', ds_stats = 2\<rparr>)]
   \<and> posted (step env0 (Timeout 0)
               (batchDeckStats env0 \<lparr>ds_id = ''spy'', ds_stats = 2\<rparr>
                  (batchDeckStats env0 \<lparr>ds_id = ''spy'', ds_stats = 3\<rparr> paused0)))
     = posted paused0
       @ [Batch [Broadcast (BroadcastDeckStats \<lparr>ds_id = ''spy'', ds_stats = 2\<rparr>)]]"
proof -
  have h: "ds_id \<lparr>ds_id = ''spy'', ds_stats = 2::nat\<rparr> = ds_id \<lparr>ds_id = ''spy'', ds_stats = 3::nat\<rparr>"
    by simp
  have q: "batchQueue (batchDeckStats env0 \<lparr>ds_id = ''spy'', ds_stats = 2\<rparr>
                 (batchDeckStats env0 \<lparr>ds_id = ''spy'', ds_stats = 3\<rparr> paused0))
     = [Broadcast (BroadcastDeckStats \<lparr>ds_id = ''spy'', ds_stats = 2\<rparr>)]"
    by (simp add: paused0_stats)
  have c: "connection paused0
     \<and> 0 \<in> set (map fst (timers (batchDeckStats env0 \<lparr>ds_id = ''spy'', ds_stats = 2\<rparr>
                 (batchDeckStats env0 \<lparr>ds_id = ''spy'', ds_stats = 3\<rparr> paused0))))"
    by (simp add: paused0_stats) (simp add: paused0_eval)
  from deck_stats_dedup[OF h, where e = env0 and s = paused0 and t = 0] c
  have "posted (step env0 (Timeout 0)
               (batchDeckStats env0 \<lparr>ds_id = ''spy'', ds_stats = 2\<rparr>
                  (batchDeckStats env0 \<lparr>ds_id = ''spy'', ds_stats = 3\<rparr> paused0)))
     = posted paused0
       @ [Batch (batchQueue (batchDeckStats env0 \<lparr>ds_id = ''spy'', ds_stats = 2\<rparr>
                 (batchDeckStats env0 \<lparr>ds_id = ''spy'', ds_stats = 3\<rparr> paused0)))]"
    by blast
  with q show ?thesis by simp
qed

subsection \<open>C6: requests for an absent plugin\<close>

text \<open>
  C6. When no plugin is recorded under the id of a pause-command, log-teardown or
  pause-teardown request, the response has no error and the state is unchanged (but
  for the response being posted). A second teardown of a plugin id changes nothing,
  and in every run no teardown closure is called twice.
\<close>

theorem absent_plugin_noop:
  assumes "plugins s (rq_pluginId rq) = None"
    and "rq_requestType rq \<in> {''pause-command'', ''log-teardown'', ''pause-teardown''}"
    and "sp_teardownCalls sp = []"
  shows "respond e rq s = Inr (\<lparr>rs_request = rq, rs_error = None, rs_pluginId = None,
                                 rs_snapshot = None\<rparr>, s)
       \<and> step e (Post rq) s
           = (if subscription s \<and> connection s
              then s\<lparr>posted := posted s @ [Response \<lparr>rs_request = rq, rs_error = None,
                                 rs_pluginId = None, rs_snapshot = None\<rparr>]\<rparr> else s)
       \<and> teardownPlugin pluginId (teardownPlugin pluginId s') = teardownPlugin pluginId s'
       \<and> distinct (sp_teardownCalls (spy (run e es (constructor ext sp))))"
proof -
  note r = absent_respond[OF assms(1,2), of e]
  have p: "step e (Post rq) s = (if subscription s \<and> connection s
                        then s\<lparr>posted := posted s @ [Response \<lparr>rs_request = rq, rs_error = None,
                                 rs_pluginId = None, rs_snapshot = None\<rparr>]\<rparr> else s)"
    by (simp add: post_def r)
  show ?thesis
    by (rule conjI[OF r conjI[OF p conjI[OF teardownPlugin_twice
          teardown_calls_distinct[OF assms(3)]]]])
qed

theorem absent_plugin_noop_witness:
  "respond env0 (request0 ''pause-teardown'' ''p9'' []) paused0
     = Inr (\<lparr>rs_request = request0 ''pause-teardown'' ''p9'' [], rs_error = None,
             rs_pluginId = None, rs_snapshot = None\<rparr>, paused0)
   \<and> respond env0 (request0 ''pause-command'' ''p9'' ''pause'') paused0
     = Inr (\<lparr>rs_request = request0 ''pause-command'' ''p9'' ''pause'', rs_error = None,
             rs_pluginId = None, rs_snapshot = None\<rparr>, paused0)
   \<and> teardownPlugin ''p1'' (teardownPlugin ''p1'' paused0) = teardownPlugin ''p1'' paused0
   \<and> distinct (sp_teardownCalls (spy (run env0
        [Post (request0 ''pause'' [] []), Post (request0 ''pause-teardown'' ''p1'' []),
         Post (request0 ''pause-teardown'' ''p1'' [])] start0)))"
proof -
  have a: "plugins paused0 (rq_pluginId (request0 ty ''p9'' c)) = None" for ty c
    by (simp add: paused0_eval request0_def)
  have b: "rq_requestType (request0 ''pause-teardown'' ''p9'' [])
             \<in> {''pause-command'', ''log-teardown'', ''pause-teardown''}"
    "rq_requestType (request0 ''pause-command'' ''p9'' ''pause'')
             \<in> {''pause-command'', ''log-teardown'', ''pause-teardown''}"
    by (simp_all add: request0_def)
  have c: "sp_teardownCalls spy0 = []" by (simp add: spy0_def)
  note i1 = absent_plugin_noop[OF a b(1) c, where e = env0 and pluginId = "''p1''"
      and s' = paused0 and ext = True
      and es = "[Post (request0 ''pause'' [] []), Post (request0 ''pause-teardown'' ''p1'' []),
                 Post (request0 ''pause-teardown'' ''p1'' [])]"]
  note i2 = absent_plugin_noop[OF a b(2) c, where e = env0 and pluginId = "''p1''"
      and s' = paused0 and ext = True and es = "[]"]
  show ?thesis unfolding start0_def using i1 i2 by blast
qed

subsection \<open>C7: unsupported commands\<close>

text \<open>
  C7. For a pause-command request whose plugin id is recorded, the command
  \<^verbatim>\<open>inspect\<close> yields the error \<^verbatim>\<open>Not implemented.\<close> and any command other than
  \<^verbatim>\<open>clear\<close>, \<^verbatim>\<open>pause\<close>, \<^verbatim>\<open>resume\<close>, \<^verbatim>\<open>skip\<close>, \<^verbatim>\<open>step\<close> and \<^verbatim>\<open>inspect\<close> yields the error
  \<^verbatim>\<open>Unexpected command.\<close>; in both cases the state, and with it every deck, is unchanged.
\<close>

theorem inspect_not_implemented:
  assumes "rq_requestType rq = ''pause-command''" and "plugins s (rq_pluginId rq) = Some r"
  shows "(rq_command rq = ''inspect'' \<longrightarrow>
            respond e rq s = Inr (\<lparr>rs_request = rq, rs_error = Some ''Not implemented.'',
                                   rs_pluginId = None, rs_snapshot = None\<rparr>, s)
            \<and> plugins (step e (Post rq) s) = plugins s)
       \<and> (rq_command rq \<notin> {''clear'', ''pause'', ''resume'', ''skip'', ''step'', ''inspect''} \<longrightarrow>
            respond e rq s = Inr (\<lparr>rs_request = rq, rs_error = Some ''Unexpected command.'',
                                   rs_pluginId = None, rs_snapshot = None\<rparr>, s)
            \<and> plugins (step e (Post rq) s) = plugins s)"
proof -
  have a: "rq_command rq = ''inspect'' \<longrightarrow>
            respond e rq s = Inr (\<lparr>rs_request = rq, rs_error = Some ''Not implemented.'',
                                   rs_pluginId = None, rs_snapshot = None\<rparr>, s)"
    using assms by (simp add: respond_def pauseCommand_def)
  have b: "rq_command rq \<notin> {''clear'', ''pause'', ''resume'', ''skip'', ''step'', ''inspect''} \<longrightarrow>
            respond e rq s = Inr (\<lparr>rs_request = rq, rs_error = Some ''Unexpected command.'',
                                   rs_pluginId = None, rs_snapshot = None\<rparr>, s)"
    using assms by (simp add: respond_def pauseCommand_def)
  have c: "respond e rq s = Inr (resp, s) \<Longrightarrow> plugins (step e (Post rq) s) = plugins s" for resp
    by (simp add: post_def)
  from a b c show ?thesis by blast
qed

theorem inspect_not_implemented_witness:
  "respond env0 (request0 ''pause-command'' ''p1'' ''inspect'') paused0
     = Inr (\<lparr>rs_request = request0 ''pause-command'' ''p1'' ''inspect'',
             rs_error = Some ''Not implemented.'', rs_pluginId = None, rs_snapshot = None\<rparr>,
            paused0)
   \<and> plugins (step env0 (Post (request0 ''pause-command'' ''p1'' ''inspect'')) paused0)
       = plugins paused0
   \<and> respond env0 (request0 ''pause-command'' ''p1'' ''explode'') paused0
     = Inr (\<lparr>rs_request = request0 ''pause-command'' ''p1'' ''explode'',
             rs_error = Some ''Unexpected command.'', rs_pluginId = None, rs_snapshot = None\<rparr>,
            paused0)"
proof -
  have a: "rq_requestType (request0 ''pause-command'' ''p1'' c) = ''pause-command''" for c
    by (simp add: request0_def)
  have b: "plugins paused0 (rq_pluginId (request0 ''pause-command'' ''p1'' c))
             = Some \<lparr>pr_plugin = PausePlugin ''spy'' False, pr_pluginId = ''p1'',
                      pr_spyId = ''spy'', pr_teardown = 0\<rparr>" for c
    by (simp add: paused0_eval request0_def)
  have c: "rq_command (request0 ''pause-command'' ''p1'' ''inspect'') = ''inspect''"
    "rq_command (request0 ''pause-command'' ''p1'' ''explode'')
       \<notin> {''clear'', ''pause'', ''resume'', ''skip'', ''step'', ''inspect''}"
    by (simp_all add: request0_def)
  from inspect_not_implemented[OF a b, where e = env0 and c1 = "''inspect''"] 
    inspect_not_implemented[OF a b, where e = env0 and c1 = "''explode''"] c
  show ?thesis by blast
qed

lemma mixed0_eval:
  "mixed0 = paused0\<lparr>batchQueue := [Broadcast (BroadcastDeckStats \<lparr>ds_id = ''spy'', ds_stats = 5\<rparr>),
                                     note0, note0, note0],
      batchTimeoutId := Some 0, timers := [(0, 100)], nextTimeoutId := 1,
      enqueued := [Broadcast (BroadcastDeckStats \<lparr>ds_id = ''spy'', ds_stats = 5\<rparr>),
                   note0, note0, note0]\<rparr>"
  by (simp add: mixed0_def run_def paused0_eval next0_step batchNotification_def batchMessage_def
        batchDeckStats_def toStats_def notificationCount_def env0_simps note0_def)

lemma mixed0_run:
  "run env0 [Post (request0 ''pause'' [] []), DeckStats ''spy'' 5, next0, next0, next0]
     (constructor True spy0) = mixed0"
  by (simp add: mixed0_def paused0_def start0_def run_def)

subsection \<open>C8: teardown\<close>

text \<open>
  C8. Teardown cancels the armed timeout and posts nothing; and whatever happens after
  it, timeouts falling due included, nothing is posted on the connection any more, so
  what the queue held is never delivered: the next message enqueued replaces it.
\<close>

theorem teardown_stops_posts:
  "batchTimeoutId (teardown s) = None
   \<and> (\<forall>t. batchTimeoutId s = Some t \<longrightarrow> t \<notin> set (map fst (timers (teardown s))))
   \<and> posted (teardown s) = posted s
   \<and> posted (run e es (teardown s)) = posted s
   \<and> batchQueue (batchMessage e m (teardown s)) = [m]"
  using teardown_facts[of s] run_disconnected[of "teardown s" e es]
  by (simp add: batchMessage_def)

theorem teardown_stops_posts_witness:
  "batchTimeoutId busy0 = Some 0
   \<and> batchQueue busy0 = [note0, note0, note0]
   \<and> batchTimeoutId (teardown busy0) = None
   \<and> 0 \<notin> set (map fst (timers (teardown busy0)))
   \<and> posted (teardown busy0) = posted busy0
   \<and> posted (run env0 [Timeout 0, next0, Timeout 0, Post (request0 ''snapshot'' [] [])]
               (teardown busy0)) = posted busy0
   \<and> batchQueue (batchMessage env0 (Broadcast BroadcastSnapshotHint) (teardown busy0))
       = [Broadcast BroadcastSnapshotHint]"
proof -
  have a: "batchTimeoutId busy0 = Some 0" "batchQueue busy0 = [note0, note0, note0]"
    by (simp_all add: busy0_eval)
  from teardown_stops_posts[where s = busy0 and e = env0
      and es = "[Timeout 0, next0, Timeout 0, Post (request0 ''snapshot'' [] [])]"
      and m = "Broadcast BroadcastSnapshotHint"] a
  show ?thesis by blast
qed

subsection \<open>C9: the overload policy and the other messages\<close>

text \<open>
  C9. In every state a run reaches from the constructor, a hook call leaves the
  messages of the queue that are no notifications in place and in order, at most
  appending the snapshot hint; when it collapses the queue, the new queue is exactly
  those messages and the hint. Enqueuing deck statistics does not look at the flag:
  with the flag set it does what it does with the flag clear.
\<close>

theorem overload_frame:
  "filter (\<lambda>m. broadcastType m \<noteq> Some ''notification'')
     (batchQueue (step e (Lifecycle h a) (run e es (constructor ext sp))))
   = filter (\<lambda>m. broadcastType m \<noteq> Some ''notification'')
       (batchQueue (run e es (constructor ext sp)))
     @ (if connection (run e es (constructor ext sp))
           \<and> \<not> snapshotHinted (run e es (constructor ext sp))
           \<and> BATCH_NOTIFICATIONS e < notificationCount (batchQueue (run e es (constructor ext sp)))
        then [Broadcast BroadcastSnapshotHint] else [])
   \<and> (connection (run e es (constructor ext sp))
        \<and> \<not> snapshotHinted (run e es (constructor ext sp))
        \<and> BATCH_NOTIFICATIONS e < notificationCount (batchQueue (run e es (constructor ext sp)))
      \<longrightarrow> batchQueue (step e (Lifecycle h a) (run e es (constructor ext sp)))
           = filter (\<lambda>m. broadcastType m \<noteq> Some ''notification'')
               (batchQueue (run e es (constructor ext sp)))
             @ [Broadcast BroadcastSnapshotHint])
   \<and> batchDeckStats e st (s\<lparr>snapshotHinted := True\<rparr>)
       = (batchDeckStats e st (s\<lparr>snapshotHinted := False\<rparr>))\<lparr>snapshotHinted := True\<rparr>
   \<and> batchQueue (batchDeckStats e st (s\<lparr>snapshotHinted := True\<rparr>))
       = (if batchTimeoutId s \<noteq> None
          then filter (\<lambda>m. broadcastType m \<noteq> Some ''deck-stats'' \<or> stats_id m \<noteq> Some (ds_id st))
                 (batchQueue s)
          else [])
         @ [Broadcast (BroadcastDeckStats st)]"
proof -
  have w: "window_inv (run e es (constructor ext sp))"
    by (rule window_inv_run[OF window_inv_constructor])
  have d: "batchDeckStats e st (s\<lparr>snapshotHinted := True\<rparr>)
       = (batchDeckStats e st (s\<lparr>snapshotHinted := False\<rparr>))\<lparr>snapshotHinted := True\<rparr>"
    by (simp add: batchDeckStats_flag)
  have q: "batchQueue (batchDeckStats e st (s\<lparr>snapshotHinted := True\<rparr>))
       = (if batchTimeoutId s \<noteq> None
          then filter (\<lambda>m. broadcastType m \<noteq> Some ''deck-stats'' \<or> stats_id m \<noteq> Some (ds_id st))
                 (batchQueue s)
          else [])
         @ [Broadcast (BroadcastDeckStats st)]"
    by (simp add: batchDeckStats_queue)
  have c: "connection (run e es (constructor ext sp))
        \<and> \<not> snapshotHinted (run e es (constructor ext sp))
        \<and> BATCH_NOTIFICATIONS e < notificationCount (batchQueue (run e es (constructor ext sp)))
      \<longrightarrow> batchQueue (step e (Lifecycle h a) (run e es (constructor ext sp)))
           = filter (\<lambda>m. broadcastType m \<noteq> Some ''notification'')
               (batchQueue (run e es (constructor ext sp)))
             @ [Broadcast BroadcastSnapshotHint]"
    using lifecycle_collapse[OF w] by blast
  show ?thesis
    by (rule conjI[OF lifecycle_frame[OF w] conjI[OF c conjI[OF d q]]])
qed

theorem overload_frame_witness:
  "batchQueue mixed0 = [Broadcast (BroadcastDeckStats \<lparr>ds_id = ''spy'', ds_stats = 5\<rparr>),
                         note0, note0, note0]
   \<and> batchQueue (step env0 next0 mixed0)
       = [Broadcast (BroadcastDeckStats \<lparr>ds_id = ''spy'', ds_stats = 5\<rparr>),
          Broadcast BroadcastSnapshotHint]
   \<and> batchQueue (batchDeckStats env0 \<lparr>ds_id = ''spy'', ds_stats = 7\<rparr> hinted0)
       = [Broadcast BroadcastSnapshotHint,
          Broadcast (BroadcastDeckStats \<lparr>ds_id = ''spy'', ds_stats = 7\<rparr>)]"
proof -
  have m: "connection mixed0" "\<not> snapshotHinted mixed0"
    "BATCH_NOTIFICATIONS env0 < notificationCount (batchQueue mixed0)"
    "batchQueue mixed0 = [Broadcast (BroadcastDeckStats \<lparr>ds_id = ''spy'', ds_stats = 5\<rparr>),
                          note0, note0, note0]"
    by (simp_all add: mixed0_eval paused0_eval notificationCount_def note0_def env0_simps)
  have f: "filter (\<lambda>m. broadcastType m \<noteq> Some ''notification'') (batchQueue mixed0)
             = [Broadcast (BroadcastDeckStats \<lparr>ds_id = ''spy'', ds_stats = 5\<rparr>)]"
    by (simp add: m(4) note0_def)
  have h: "hinted0\<lparr>snapshotHinted := True\<rparr> = hinted0" "batchTimeoutId hinted0 \<noteq> None"
    "batchQueue hinted0 = [Broadcast BroadcastSnapshotHint]"
    by (simp_all add: hinted0_eval)
  note i = overload_frame[where e = env0 and ext = True and sp = spy0
      and es = "[Post (request0 ''pause'' [] []), DeckStats ''spy'' 5, next0, next0, next0]"
      and h = "BeforeNext ref0 (Some 0)" and a = amb0
      and st = "\<lparr>ds_id = ''spy'', ds_stats = 7\<rparr>" and s = hinted0,
      unfolded mixed0_run next0_def[symmetric] h(1)]
  from i[THEN conjunct2, THEN conjunct1] m(1-3)
  have "batchQueue (step env0 next0 mixed0)
          = filter (\<lambda>m. broadcastType m \<noteq> Some ''notification'') (batchQueue mixed0)
            @ [Broadcast BroadcastSnapshotHint]"
    by blast
  with f have a: "batchQueue (step env0 next0 mixed0)
       = [Broadcast (BroadcastDeckStats \<lparr>ds_id = ''spy'', ds_stats = 5\<rparr>),
          Broadcast BroadcastSnapshotHint]"
    by simp
  from i[THEN conjunct2, THEN conjunct2, THEN conjunct2] h(2)
  have "batchQueue (batchDeckStats env0 \<lparr>ds_id = ''spy'', ds_stats = 7\<rparr> hinted0)
          = filter (\<lambda>m. broadcastType m \<noteq> Some ''deck-stats''
                            \<or> stats_id m \<noteq> Some (ds_id \<lparr>ds_id = ''spy'', ds_stats = 7::nat\<rparr>))
              (batchQueue hinted0)
            @ [Broadcast (BroadcastDeckStats \<lparr>ds_id = ''spy'', ds_stats = 7\<rparr>)]"
    by simp
  then have b: "batchQueue (batchDeckStats env0 \<lparr>ds_id = ''spy'', ds_stats = 7\<rparr> hinted0)
       = [Broadcast BroadcastSnapshotHint,
          Broadcast (BroadcastDeckStats \<lparr>ds_id = ''spy'', ds_stats = 7\<rparr>)]"
    by (simp add: h(3))
  from m(4) a b show ?thesis by simp
qed

subsection \<open>C10: one hint per epoch\<close>

text \<open>
  C10. While the flag is set a hook call changes nothing. Events that all find the flag
  set enqueue no snapshot hint; so from the event that sets the flag up to an event that
  finds it cleared, exactly one snapshot hint is enqueued.
\<close>

theorem one_hint_per_epoch:
  "(snapshotHinted s \<longrightarrow> step e (Lifecycle h a) s = s)
   \<and> (hintedBefore e es s \<longrightarrow> hints (enqueued (run e es s)) = hints (enqueued s))
   \<and> (\<not> snapshotHinted s \<and> snapshotHinted (step e ev s) \<and> hintedBefore e es (step e ev s)
        \<longrightarrow> hints (enqueued (run e (ev # es) s)) = hints (enqueued s) + 1)"
  using hinted_lifecycle_noop[of s e h a] run_hintedBefore[of e es s] epoch_one_hint[of s e ev es]
  by blast

lemma hinted0_timeout:
  "batchTimeout (hinted0\<lparr>timers := clearTimeout 0 (timers hinted0)\<rparr>)
     = hinted0\<lparr>timers := [], posted := [Batch [Broadcast BroadcastSnapshotHint]],
         batchTimeoutId := None, batchQueue := []\<rparr>"
  by (simp add: hinted0_eval batchTimeout_def clearTimeout_def)

theorem one_hint_per_epoch_witness:
  "\<not> snapshotHinted busy0
   \<and> snapshotHinted (step env0 next0 busy0)
   \<and> step env0 next0 hinted0 = hinted0
   \<and> hints (enqueued busy0) = 0
   \<and> hints (enqueued (run env0 [next0, next0, Timeout 0, next0] busy0)) = 1
   \<and> hints (enqueued (run env0 [next0, Timeout 0, next0] hinted0)) = 1"
proof -
  have b: "\<not> snapshotHinted busy0" "hints (enqueued busy0) = 0"
    by (simp_all add: busy0_eval hints_def note0_def)
  have s1: "step env0 next0 busy0 = hinted0" by (simp add: hinted0_def)
  have h: "snapshotHinted hinted0" "hints (enqueued hinted0) = 1"
    by (simp_all add: hinted0_eval hints_def note0_def)
  have n: "step env0 next0 hinted0 = hinted0"
    by (simp add: next0_step suppressed_step h(1))
  have t: "step env0 (Timeout 0) hinted0
             = hinted0\<lparr>timers := [], posted := [Batch [Broadcast BroadcastSnapshotHint]],
                 batchTimeoutId := None, batchQueue := []\<rparr>"
    using hinted0_timeout by (simp add: hinted0_eval)
  have n': "step env0 next0 (hinted0\<lparr>timers := [], posted := [Batch [Broadcast BroadcastSnapshotHint]],
                 batchTimeoutId := None, batchQueue := []\<rparr>)
            = hinted0\<lparr>timers := [], posted := [Batch [Broadcast BroadcastSnapshotHint]],
                 batchTimeoutId := None, batchQueue := []\<rparr>"
    by (simp add: next0_step suppressed_step h(1))
  have hb: "hintedBefore env0 [next0, Timeout 0, next0] hinted0"
    unfolding hintedBefore.simps n t n' by (simp add: h(1))
  note i = one_hint_per_epoch[where s = busy0 and e = env0 and ev = next0
      and es = "[next0, Timeout 0, next0]", unfolded s1]
  note j = one_hint_per_epoch[where s = hinted0 and e = env0 and h = "BeforeNext ref0 (Some 0)"
      and a = amb0 and es = "[next0, Timeout 0, next0]", unfolded next0_def[symmetric]]
  from i b(1) h(1) hb
  have "hints (enqueued (run env0 [next0, next0, Timeout 0, next0] busy0))
          = hints (enqueued busy0) + 1"
    by blast
  with b(2) have a1: "hints (enqueued (run env0 [next0, next0, Timeout 0, next0] busy0)) = 1"
    by simp
  from j hb
  have "hints (enqueued (run env0 [next0, Timeout 0, next0] hinted0)) = hints (enqueued hinted0)"
    by blast
  with h(2) have a2: "hints (enqueued (run env0 [next0, Timeout 0, next0] hinted0)) = 1"
    by simp
  from b s1 h(1) n a1 a2 show ?thesis by simp
qed

end
